theory Spec2Isabelle
  imports Complex_Main
begin

section \<open>Movies API: a shallow embedding of backend/main.py, database.py and models.py\<close>

text \<open>
  The backend is a FastAPI application over one SQLite file. Every handler opens its own
  connection with \<open>get_db()\<close>, runs one or more SQL statements and either commits or
  raises. The model threads the database through the handlers as an explicit state and
  returns every raised exception as a value (\<open>Inl\<close>).

  Conventions of the model:
  \<^item> a handler has the type \<open>db \<Rightarrow> ... \<Rightarrow> (error + result) \<times> db\<close>; the second component is
    the database as it is once the handler has returned or raised;
  \<^item> Python integers are \<open>int\<close>, unbounded; an \<open>INTEGER\<close> column and a bound statement
    parameter hold 64 signed bits, and \<open>cursor.execute\<close> raises \<open>OverflowError\<close> for an
    integer parameter outside that range before the statement runs;
  \<^item> a Python float is a \<open>pyfloat\<close>; a \<open>REAL\<close> column holds \<open>NULL\<close> for a bound NaN and
    \<open>0.0\<close> for a bound negative zero;
  \<^item> a string is a text \<open>str\<close> validation and the database driver accept, as its bytes;
  \<^item> the request body is a JSON object whose members have the declared types; a member is
    absent, \<open>null\<close> or a value (\<open>'a field\<close>);
  \<^item> \<open>auth.py\<close> is imported by main.py but is not among the sources, and \<open>HTTPBearer\<close> is
    FastAPI's: what main.py takes from them are the fields of the parameter \<open>A\<close> of every
    handler that uses them.
\<close>

subsection \<open>Errors\<close>

datatype error =
    HTTPException nat string    \<comment> \<open>\<open>raise HTTPException(status_code=..., detail=...)\<close>\<close>
  | RequestValidationError      \<comment> \<open>the body does not validate against the pydantic model (422)\<close>
  | IntegrityError string       \<comment> \<open>\<open>sqlite3.IntegrityError\<close>; no handler catches it\<close>
  | OverflowError               \<comment> \<open>``Python int too large to convert to SQLite INTEGER''\<close>
  | OperationalError string     \<comment> \<open>\<open>sqlite3.OperationalError\<close>; no handler catches it\<close>
  | TypeError                   \<comment> \<open>Python's \<open>dict(None)\<close>\<close>

subsection \<open>models.py and the data shapes of auth.py\<close>

datatype 'a field = Absent | Null | Value 'a

text \<open>A Python float: a finite value (\<open>Finite 0\<close> is \<open>+0.0\<close>), negative zero, an infinity or
  NaN.\<close>

datatype pyfloat = Finite real | NegZero | PosInf | NegInf | NaN

record movie_body =
  b_title :: "string field"
  b_director :: "string field"
  b_year :: "int field"
  b_genre :: "string field"
  b_rating :: "pyfloat field"
  b_description :: "string field"

record MovieCreate =
  mc_title :: string
  mc_director :: "string option"
  mc_year :: "int option"
  mc_genre :: "string option"
  mc_rating :: "pyfloat option"
  mc_description :: "string option"

text \<open>
  \<open>MovieUpdate\<close> declares every member \<open>Optional[...] = None\<close>. A validated instance knows
  each member's value and whether the request set it, which is what \<open>'a field\<close> records, so
  the validated update is the body itself.
\<close>

type_synonym MovieUpdate = movie_body

record Movie =
  movie_id :: int
  title :: string
  director :: "string option"
  year :: "int option"
  genre :: "string option"
  rating :: "pyfloat option"
  description :: "string option"
  user_id :: int

record User =
  User_id :: int
  User_username :: string

record UserCreate =
  username :: string
  password :: string

record Token =
  access_token :: string
  token_type :: string

record TokenData =
  td_username :: "string option"

text \<open>
  What main.py takes from outside the sources: the names it imports from auth.py, and the
  status with which \<open>security = HTTPBearer()\<close> refuses a request that carries no
  credentials (403 in older releases of FastAPI, 401 in newer ones; the repository pins
  none).
\<close>

record deps =
  verify_password :: "string \<Rightarrow> string \<Rightarrow> bool"
  get_password_hash :: "string \<Rightarrow> string"
  create_access_token :: "(string \<times> string) list \<Rightarrow> int \<Rightarrow> string"
  decode_access_token :: "string \<Rightarrow> TokenData option"
  ACCESS_TOKEN_EXPIRE_MINUTES :: int
  HTTPBearer_status :: nat

text \<open>Validation of a request body against \<open>MovieCreate\<close>: \<open>title: str\<close> is required and
  is not \<open>Optional\<close>; the other members default to \<open>None\<close>.\<close>

definition optional :: "'a field \<Rightarrow> 'a option" where
  "optional f = (case f of Absent \<Rightarrow> None | Null \<Rightarrow> None | Value v \<Rightarrow> Some v)"

definition validate_MovieCreate :: "movie_body \<Rightarrow> error + MovieCreate" where
  "validate_MovieCreate b =
     (case b_title b of
        Absent \<Rightarrow> Inl RequestValidationError
      | Null \<Rightarrow> Inl RequestValidationError
      | Value t \<Rightarrow> Inr \<lparr>mc_title = t, mc_director = optional (b_director b),
                        mc_year = optional (b_year b), mc_genre = optional (b_genre b),
                        mc_rating = optional (b_rating b),
                        mc_description = optional (b_description b)\<rparr>)"

definition validate_MovieUpdate :: "movie_body \<Rightarrow> error + MovieUpdate" where
  "validate_MovieUpdate b = Inr b"

text \<open>\<open>model_dump(exclude_unset=True)\<close>: the members the request set, in declaration
  order, each with its value; a member set to \<open>null\<close> is in the dict with the value \<open>None\<close>.\<close>

datatype assignment =
    Title "string option"
  | Director "string option"
  | Year "int option"
  | Genre "string option"
  | Rating "pyfloat option"
  | Description "string option"

definition dump_field :: "('a option \<Rightarrow> assignment) \<Rightarrow> 'a field \<Rightarrow> assignment list" where
  "dump_field k f = (case f of Absent \<Rightarrow> [] | Null \<Rightarrow> [k None] | Value v \<Rightarrow> [k (Some v)])"

definition model_dump_exclude_unset :: "MovieUpdate \<Rightarrow> assignment list" where
  "model_dump_exclude_unset u =
     dump_field Title (b_title u) @ dump_field Director (b_director u) @
     dump_field Year (b_year u) @ dump_field Genre (b_genre u) @
     dump_field Rating (b_rating u) @ dump_field Description (b_description u)"

fun key :: "assignment \<Rightarrow> string" where
  "key (Title _) = ''title''"
| "key (Director _) = ''director''"
| "key (Year _) = ''year''"
| "key (Genre _) = ''genre''"
| "key (Rating _) = ''rating''"
| "key (Description _) = ''description''"

fun join :: "string \<Rightarrow> string list \<Rightarrow> string" where
  "join sep [] = []"
| "join sep [x] = x"
| "join sep (x # y # ys) = x @ sep @ join sep (y # ys)"

definition set_clause :: "assignment list \<Rightarrow> string" where
  "set_clause update_data = join '', '' (map (\<lambda>a. key a @ '' = ?'') update_data)"

subsection \<open>database.py: the two tables\<close>

record users_row =
  users_id :: int
  users_username :: string
  users_hashed_password :: string

text \<open>
  A row of \<open>movies\<close> has the columns the handlers select. \<open>title\<close> is \<open>NOT NULL\<close>;
  \<open>user_id\<close> is written by the only \<open>INSERT\<close> from \<open>current_user.id\<close>, an integer.
  Both tables have \<open>INTEGER PRIMARY KEY AUTOINCREMENT\<close>: the sequence fields hold the
  largest row id each table has ever handed out, and an \<open>INSERT\<close> into a table whose next
  id would not fit in 64 bits fails with ``database or disk is full''.

  Of the integers the handlers bind, \<open>movie_id\<close> and \<open>year\<close> come from the request;
  \<open>current_user.id\<close> is read from \<open>users.id\<close> and fits.
\<close>

definition int64 :: "int \<Rightarrow> bool" where
  "int64 i \<longleftrightarrow> - 9223372036854775808 \<le> i \<and> i \<le> 9223372036854775807"

text \<open>What a \<open>REAL\<close> column holds once a float (or \<open>None\<close>) has been bound to it.\<close>

fun sqlite_real :: "pyfloat option \<Rightarrow> pyfloat option" where
  "sqlite_real (Some NaN) = None"
| "sqlite_real (Some NegZero) = Some (Finite 0)"
| "sqlite_real v = v"

definition bindable_year :: "int option \<Rightarrow> bool" where
  "bindable_year y = (case y of None \<Rightarrow> True | Some i \<Rightarrow> int64 i)"

record db =
  users :: "users_row list"
  movies :: "Movie list"
  users_seq :: int
  movies_seq :: int
  opened :: nat    \<comment> \<open>how many connections \<open>get_db()\<close> has opened so far\<close>

definition get_db :: "db \<Rightarrow> db" where
  "get_db s = s\<lparr>opened := opened s + 1\<rparr>"

text \<open>\<open>init_db()\<close> opens a connection and runs \<open>CREATE TABLE IF NOT EXISTS\<close> for both
  tables: on a fresh file (\<open>None\<close>) they are created empty, on an existing database they
  are left as they are.\<close>

definition init_db :: "db option \<Rightarrow> db" where
  "init_db file =
     (case file of
        None \<Rightarrow> get_db \<lparr>users = [], movies = [], users_seq = 0, movies_seq = 0, opened = 0\<rparr>
      | Some s \<Rightarrow> get_db s)"

definition next_rowid :: "int \<Rightarrow> int list \<Rightarrow> int" where
  "next_rowid seq ids = fold max ids seq + 1"

text \<open>\<open>SELECT ... FROM users WHERE username = ?\<close> followed by \<open>fetchone()\<close>.\<close>

definition select_user :: "users_row list \<Rightarrow> string \<Rightarrow> users_row option" where
  "select_user us name = find (\<lambda>r. users_username r = name) us"

text \<open>\<open>INSERT INTO users (username, hashed_password) VALUES (?, ?)\<close> and the commit.
  \<open>username\<close> is \<open>UNIQUE\<close>.\<close>

definition insert_user :: "db \<Rightarrow> string \<Rightarrow> string \<Rightarrow> error + db" where
  "insert_user s name hashed =
     (let i = next_rowid (users_seq s) (map users_id (users s)) in
      if \<not> int64 i then Inl (OperationalError ''database or disk is full'')
      else if name \<in> set (map users_username (users s))
      then Inl (IntegrityError ''UNIQUE constraint failed: users.username'')
      else Inr (s\<lparr>users := users s @ [\<lparr>users_id = i, users_username = name,
                                         users_hashed_password = hashed\<rparr>],
                   users_seq := i\<rparr>))"

text \<open>\<open>SELECT ... FROM movies WHERE user_id = ?\<close> followed by \<open>fetchall()\<close>.\<close>

definition select_movies_of :: "Movie list \<Rightarrow> int \<Rightarrow> Movie list" where
  "select_movies_of ms uid = filter (\<lambda>m. user_id m = uid) ms"

text \<open>\<open>SELECT ... FROM movies WHERE id = ? AND user_id = ?\<close> followed by \<open>fetchone()\<close>.\<close>

definition select_movie_owned :: "Movie list \<Rightarrow> int \<Rightarrow> int \<Rightarrow> Movie option" where
  "select_movie_owned ms mid uid = find (\<lambda>m. movie_id m = mid \<and> user_id m = uid) ms"

text \<open>\<open>SELECT ... FROM movies WHERE id = ?\<close> followed by \<open>fetchone()\<close>.\<close>

definition select_movie_by_id :: "Movie list \<Rightarrow> int \<Rightarrow> Movie option" where
  "select_movie_by_id ms mid = find (\<lambda>m. movie_id m = mid) ms"

text \<open>\<open>INSERT INTO movies (title, ..., user_id) VALUES (?, ..., ?)\<close>, the commit and
  \<open>cursor.lastrowid\<close>. The year is bound first; a statement that raises stores nothing.\<close>

definition insert_movie :: "db \<Rightarrow> MovieCreate \<Rightarrow> int \<Rightarrow> error + int \<times> db" where
  "insert_movie s movie uid =
     (if \<not> bindable_year (mc_year movie) then Inl OverflowError
      else let i = next_rowid (movies_seq s) (map movie_id (movies s)) in
           if \<not> int64 i then Inl (OperationalError ''database or disk is full'')
           else Inr (i, s\<lparr>movies := movies s @
                                  [\<lparr>movie_id = i, title = mc_title movie,
                                    director = mc_director movie, year = mc_year movie,
                                    genre = mc_genre movie, rating = sqlite_real (mc_rating movie),
                                    description = mc_description movie, user_id = uid\<rparr>],
                        movies_seq := i\<rparr>))"

text \<open>\<open>UPDATE movies SET k1 = ?, ... WHERE id = ? AND user_id = ?\<close>. The values are bound
  first: a year outside 64 bits raises \<open>OverflowError\<close> and the statement does not run.
  Writing \<open>NULL\<close> to \<open>title\<close> violates its \<open>NOT NULL\<close> constraint: the statement raises and
  changes nothing.\<close>

fun bindable :: "assignment \<Rightarrow> bool" where
  "bindable (Year y) = bindable_year y"
| "bindable _ = True"

fun assign :: "assignment \<Rightarrow> Movie \<Rightarrow> error + Movie" where
  "assign (Title None) m = Inl (IntegrityError ''NOT NULL constraint failed: movies.title'')"
| "assign (Title (Some t)) m = Inr (m\<lparr>title := t\<rparr>)"
| "assign (Director v) m = Inr (m\<lparr>director := v\<rparr>)"
| "assign (Year v) m = Inr (m\<lparr>year := v\<rparr>)"
| "assign (Genre v) m = Inr (m\<lparr>genre := v\<rparr>)"
| "assign (Rating v) m = Inr (m\<lparr>rating := sqlite_real v\<rparr>)"
| "assign (Description v) m = Inr (m\<lparr>description := v\<rparr>)"

fun assign_all :: "assignment list \<Rightarrow> Movie \<Rightarrow> error + Movie" where
  "assign_all [] m = Inr m"
| "assign_all (a # as) m = (case assign a m of Inl e \<Rightarrow> Inl e | Inr m' \<Rightarrow> assign_all as m')"

fun update_rows :: "assignment list \<Rightarrow> int \<Rightarrow> int \<Rightarrow> Movie list \<Rightarrow> error + Movie list" where
  "update_rows as mid uid [] = Inr []"
| "update_rows as mid uid (m # ms) =
     (if movie_id m = mid \<and> user_id m = uid
      then (case assign_all as m of
              Inl e \<Rightarrow> Inl e
            | Inr m' \<Rightarrow> (case update_rows as mid uid ms of
                           Inl e \<Rightarrow> Inl e | Inr ms' \<Rightarrow> Inr (m' # ms')))
      else (case update_rows as mid uid ms of
              Inl e \<Rightarrow> Inl e | Inr ms' \<Rightarrow> Inr (m # ms')))"

definition execute_update :: "db \<Rightarrow> assignment list \<Rightarrow> int \<Rightarrow> int \<Rightarrow> error + db" where
  "execute_update s update_data mid uid =
     (if \<not> list_all bindable update_data then Inl OverflowError
      else case update_rows update_data mid uid (movies s) of
             Inl e \<Rightarrow> Inl e
           | Inr ms \<Rightarrow> Inr (s\<lparr>movies := ms\<rparr>))"

text \<open>\<open>DELETE FROM movies WHERE id = ? AND user_id = ?\<close>: the rows left and
  \<open>cursor.rowcount\<close>.\<close>

definition delete_rows :: "int \<Rightarrow> int \<Rightarrow> Movie list \<Rightarrow> Movie list \<times> nat" where
  "delete_rows mid uid ms =
     (filter (\<lambda>m. \<not> (movie_id m = mid \<and> user_id m = uid)) ms,
      length (filter (\<lambda>m. movie_id m = mid \<and> user_id m = uid) ms))"

subsection \<open>main.py: the handlers\<close>

definition get_current_user :: "deps \<Rightarrow> db \<Rightarrow> string \<Rightarrow> (error + User) \<times> db" where
  "get_current_user A s token =
     (case decode_access_token A token of
        None \<Rightarrow> (Inl (HTTPException 401 ''Invalid authentication credentials''), s)
      | Some token_data \<Rightarrow>
          (case td_username token_data of
             None \<Rightarrow> (Inl (HTTPException 401 ''Invalid authentication credentials''), s)
           | Some name \<Rightarrow>
               (let s1 = get_db s in
                case select_user (users s1) name of
                  None \<Rightarrow> (Inl (HTTPException 404 ''User not found''), s1)
                | Some user_row \<Rightarrow>
                    (Inr \<lparr>User_id = users_id user_row,
                          User_username = users_username user_row\<rparr>, s1))))"

definition mint :: "deps \<Rightarrow> string \<Rightarrow> Token" where
  "mint A name =
     \<lparr>access_token = create_access_token A [(''sub'', name)] (ACCESS_TOKEN_EXPIRE_MINUTES A),
      token_type = ''bearer''\<rparr>"

definition register :: "deps \<Rightarrow> db \<Rightarrow> UserCreate \<Rightarrow> (error + Token) \<times> db" where
  "register A s user =
     (let s1 = get_db s in
      case select_user (users s1) (username user) of
        Some _ \<Rightarrow> (Inl (HTTPException 400 ''Username already registered''), s1)
      | None \<Rightarrow>
          (let hashed_password = get_password_hash A (password user) in
           case insert_user s1 (username user) hashed_password of
             Inl e \<Rightarrow> (Inl e, s1)
           | Inr s2 \<Rightarrow> (Inr (mint A (username user)), s2)))"

definition login :: "deps \<Rightarrow> db \<Rightarrow> UserCreate \<Rightarrow> (error + Token) \<times> db" where
  "login A s user =
     (let s1 = get_db s in
      case select_user (users s1) (username user) of
        None \<Rightarrow> (Inl (HTTPException 401 ''Incorrect username or password''), s1)
      | Some user_row \<Rightarrow>
          (if \<not> verify_password A (password user) (users_hashed_password user_row)
           then (Inl (HTTPException 401 ''Incorrect username or password''), s1)
           else (Inr (mint A (username user)), s1)))"

definition get_movies :: "db \<Rightarrow> User \<Rightarrow> (error + Movie list) \<times> db" where
  "get_movies s current_user =
     (let s1 = get_db s in (Inr (select_movies_of (movies s1) (User_id current_user)), s1))"

definition create_movie :: "db \<Rightarrow> MovieCreate \<Rightarrow> User \<Rightarrow> (error + Movie) \<times> db" where
  "create_movie s movie current_user =
     (let s1 = get_db s in
      case insert_movie s1 movie (User_id current_user) of
        Inl e \<Rightarrow> (Inl e, s1)
      | Inr (new_id, s2) \<Rightarrow>
          (Inr \<lparr>movie_id = new_id, title = mc_title movie, director = mc_director movie,
                year = mc_year movie, genre = mc_genre movie, rating = mc_rating movie,
                description = mc_description movie, user_id = User_id current_user\<rparr>, s2))"

definition get_movie :: "db \<Rightarrow> int \<Rightarrow> User \<Rightarrow> (error + Movie) \<times> db" where
  "get_movie s mid current_user =
     (let s1 = get_db s in
      if \<not> int64 mid then (Inl OverflowError, s1)
      else case select_movie_owned (movies s1) mid (User_id current_user) of
             None \<Rightarrow> (Inl (HTTPException 404 ''Movie not found''), s1)
           | Some movie \<Rightarrow> (Inr movie, s1))"

text \<open>
  After the update the handler selects by \<open>id\<close> alone, and \<open>dict(None)\<close> raises
  \<open>TypeError\<close> should that select find no row. An exception out of the \<open>UPDATE\<close> leaves
  the handler before \<open>conn.commit()\<close>.
\<close>

definition update_movie :: "db \<Rightarrow> int \<Rightarrow> MovieUpdate \<Rightarrow> User \<Rightarrow> (error + Movie) \<times> db" where
  "update_movie s mid movie_update current_user =
     (let s1 = get_db s in
      if \<not> int64 mid then (Inl OverflowError, s1)
      else case select_movie_owned (movies s1) mid (User_id current_user) of
        None \<Rightarrow> (Inl (HTTPException 404 ''Movie not found''), s1)
      | Some existing_movie \<Rightarrow>
          (let update_data = model_dump_exclude_unset movie_update in
           case (if update_data \<noteq> []
                 then execute_update s1 update_data mid (User_id current_user)
                 else Inr s1) of
             Inl e \<Rightarrow> (Inl e, s1)
           | Inr s2 \<Rightarrow>
               (case select_movie_by_id (movies s2) mid of
                  None \<Rightarrow> (Inl TypeError, s2)
                | Some updated_movie \<Rightarrow> (Inr updated_movie, s2))))"

definition delete_movie :: "db \<Rightarrow> int \<Rightarrow> User \<Rightarrow> (error + unit) \<times> db" where
  "delete_movie s mid current_user =
     (let s1 = get_db s in
      if \<not> int64 mid then (Inl OverflowError, s1)
      else let (rest, rowcount) = delete_rows mid (User_id current_user) (movies s1)
           in if rowcount = 0
              then (Inl (HTTPException 404 ''Movie not found''), s1)
              else (Inr (), s1\<lparr>movies := rest\<rparr>))"

subsection \<open>The application: dependencies, body validation, dispatch\<close>

text \<open>
  FastAPI resolves \<open>Depends(get_current_user)\<close> first, and beneath it \<open>Depends(security)\<close>;
  an exception raised there is the response. It validates the body against the handler's
  pydantic model next, and calls the handler last.

  A protected request carries the credentials of its \<open>Authorization: Bearer\<close> header, or
  \<open>None\<close> when it has no such header. \<open>HTTPBearer\<close> refuses a request without a header or
  with empty credentials as ``Not authenticated''; a header of another scheme is not
  modelled.
\<close>

datatype request =
    Register UserCreate
  | Login UserCreate
  | ListMovies "string option"
  | CreateMovie "string option" movie_body
  | GetMovie "string option" int
  | UpdateMovie "string option" int movie_body
  | DeleteMovie "string option" int

definition security :: "deps \<Rightarrow> string option \<Rightarrow> error + string" where
  "security A credentials =
     (case credentials of
        None \<Rightarrow> Inl (HTTPException (HTTPBearer_status A) ''Not authenticated'')
      | Some token \<Rightarrow>
          if token = [] then Inl (HTTPException (HTTPBearer_status A) ''Not authenticated'')
          else Inr token)"

datatype response =
    TokenResponse Token
  | MoviesResponse "Movie list"
  | MovieResponse Movie
  | NoContent

definition respond :: "('a \<Rightarrow> response) \<Rightarrow> (error + 'a) \<times> db \<Rightarrow> (error + response) \<times> db" where
  "respond f r = (case r of (Inl e, s) \<Rightarrow> (Inl e, s) | (Inr x, s) \<Rightarrow> (Inr (f x), s))"

definition protected ::
  "deps \<Rightarrow> db \<Rightarrow> string option \<Rightarrow> (db \<Rightarrow> User \<Rightarrow> (error + response) \<times> db) \<Rightarrow>
     (error + response) \<times> db"
where
  "protected A s credentials handler =
     (case security A credentials of
        Inl e \<Rightarrow> (Inl e, s)
      | Inr token \<Rightarrow>
          (case get_current_user A s token of
             (Inl e, s1) \<Rightarrow> (Inl e, s1)
           | (Inr current_user, s1) \<Rightarrow> handler s1 current_user))"

fun handle :: "deps \<Rightarrow> db \<Rightarrow> request \<Rightarrow> (error + response) \<times> db" where
  "handle A s (Register user) = respond TokenResponse (register A s user)"
| "handle A s (Login user) = respond TokenResponse (login A s user)"
| "handle A s (ListMovies token) =
     protected A s token (\<lambda>s1 u. respond MoviesResponse (get_movies s1 u))"
| "handle A s (CreateMovie token body) =
     protected A s token (\<lambda>s1 u.
       case validate_MovieCreate body of
         Inl e \<Rightarrow> (Inl e, s1)
       | Inr movie \<Rightarrow> respond MovieResponse (create_movie s1 movie u))"
| "handle A s (GetMovie token mid) =
     protected A s token (\<lambda>s1 u. respond MovieResponse (get_movie s1 mid u))"
| "handle A s (UpdateMovie token mid body) =
     protected A s token (\<lambda>s1 u.
       case validate_MovieUpdate body of
         Inl e \<Rightarrow> (Inl e, s1)
       | Inr movie_update \<Rightarrow> respond MovieResponse (update_movie s1 mid movie_update u))"
| "handle A s (DeleteMovie token mid) =
     protected A s token (\<lambda>s1 u. respond (\<lambda>_. NoContent) (delete_movie s1 mid u))"

text \<open>A history of requests, each served with the auth module as it behaves when the
  request arrives (its clock moves between requests).\<close>

fun run :: "db \<Rightarrow> (deps \<times> request) list \<Rightarrow> db" where
  "run s [] = s"
| "run s ((A, r) # rest) = run (snd (handle A s r)) rest"

subsection \<open>Notions the properties are stated with\<close>

text \<open>What the schema's keys and \<open>AUTOINCREMENT\<close> guarantee of every stored database:
  row ids are unique, fit in 64 bits and are not above the table's sequence, usernames are
  unique.\<close>

definition wf_db :: "db \<Rightarrow> bool" where
  "wf_db s \<longleftrightarrow>
     distinct (map movie_id (movies s)) \<and>
     (\<forall>m \<in> set (movies s). movie_id m \<le> movies_seq s \<and> int64 (movie_id m)) \<and>
     int64 (movies_seq s) \<and>
     distinct (map users_id (users s)) \<and>
     distinct (map users_username (users s))"

text \<open>The table \<open>movies\<close> can still hand out an id.\<close>

definition has_room :: "db \<Rightarrow> bool" where
  "has_room s \<longleftrightarrow> int64 (next_rowid (movies_seq s) (map movie_id (movies s)))"

text \<open>The sparse update as the specification words it: a member the request leaves out
  keeps the stored value, a member it carries replaces it (a rating by what the column
  holds for it).\<close>

definition overwrite :: "'a field \<Rightarrow> 'a option \<Rightarrow> 'a option" where
  "overwrite f old = (case f of Absent \<Rightarrow> old | Null \<Rightarrow> None | Value v \<Rightarrow> Some v)"

definition overwrite_real :: "pyfloat field \<Rightarrow> pyfloat option \<Rightarrow> pyfloat option" where
  "overwrite_real f old =
     (case f of Absent \<Rightarrow> old | Null \<Rightarrow> None | Value v \<Rightarrow> sqlite_real (Some v))"

definition sparse_update :: "MovieUpdate \<Rightarrow> Movie \<Rightarrow> Movie" where
  "sparse_update u m =
     m\<lparr>title := (case b_title u of Value t \<Rightarrow> t | _ \<Rightarrow> title m),
       director := overwrite (b_director u) (director m),
       year := overwrite (b_year u) (year m),
       genre := overwrite (b_genre u) (genre m),
       rating := overwrite_real (b_rating u) (rating m),
       description := overwrite (b_description u) (description m)\<rparr>"

text \<open>Every member of a body but the title is absent or \<open>null\<close>.\<close>

definition absent_or_null :: "'a field \<Rightarrow> bool" where
  "absent_or_null f \<longleftrightarrow> f = Absent \<or> f = Null"

definition title_only :: "movie_body \<Rightarrow> bool" where
  "title_only b \<longleftrightarrow>
     absent_or_null (b_director b) \<and> absent_or_null (b_year b) \<and>
     absent_or_null (b_genre b) \<and> absent_or_null (b_rating b) \<and>
     absent_or_null (b_description b)"

text \<open>The year a body carries, if it carries one, fits in 64 bits.\<close>

definition year_fits :: "movie_body \<Rightarrow> bool" where
  "year_fits b = (case b_year b of Value y \<Rightarrow> int64 y | _ \<Rightarrow> True)"

text \<open>The credentials authenticate the user \<open>u\<close>; \<open>s1\<close> is the database once
  \<open>get_current_user\<close> has returned.\<close>

definition authenticated :: "deps \<Rightarrow> db \<Rightarrow> string option \<Rightarrow> User \<Rightarrow> db \<Rightarrow> bool" where
  "authenticated A s credentials u s1 \<longleftrightarrow>
     (case credentials of
        None \<Rightarrow> False
      | Some token \<Rightarrow> token \<noteq> [] \<and> get_current_user A s token = (Inr u, s1))"

definition no_fields :: "movie_body \<Rightarrow> bool" where
  "no_fields u \<longleftrightarrow>
     b_title u = Absent \<and> b_director u = Absent \<and> b_year u = Absent \<and>
     b_genre u = Absent \<and> b_rating u = Absent \<and> b_description u = Absent"

definition owner_of :: "db \<Rightarrow> int \<Rightarrow> int option" where
  "owner_of s mid = map_option user_id (select_movie_by_id (movies s) mid)"

text \<open>What a request may do to the movies of a well-formed database: the result is
  well-formed, the sequence does not go back, and a row whose id the table had handed out
  before is a row that was there before, with the owner it had.\<close>

definition evolves :: "db \<Rightarrow> db \<Rightarrow> bool" where
  "evolves s s' \<longleftrightarrow>
     wf_db s' \<and> movies_seq s \<le> movies_seq s' \<and>
     (\<forall>m' \<in> set (movies s'). movie_id m' \<le> movies_seq s \<longrightarrow>
        (\<exists>m \<in> set (movies s). movie_id m = movie_id m' \<and> user_id m = user_id m'))"

definition Unauthorized :: error where
  "Unauthorized = HTTPException 401 ''Invalid authentication credentials''"

definition NotFound :: error where
  "NotFound = HTTPException 404 ''Movie not found''"

definition Conflict :: error where
  "Conflict = HTTPException 400 ''Username already registered''"

text \<open>A token the handlers reject: \<open>decode_access_token\<close> returns \<open>None\<close> for it, or
  claims without a username.\<close>

definition rejected :: "deps \<Rightarrow> string \<Rightarrow> bool" where
  "rejected A token \<longleftrightarrow>
     (case decode_access_token A token of None \<Rightarrow> True | Some td \<Rightarrow> td_username td = None)"

subsection \<open>An instance of the dependencies\<close>

text \<open>
  Modelled from the spec: auth.py, which main.py imports, is missing from the sources.
  This instance follows section 4.2 at a fixed instant of the clock and with a fixed
  salt: the hash of a password is the password behind a marker and verifies against that
  password alone; a token carries the \<open>sub\<close> claim behind a signature marker, and decoding
  returns the claim of a token that bears the marker and \<open>None\<close> for every other string.
  It serves to evaluate the handlers at concrete inputs, under a FastAPI whose
  \<open>HTTPBearer\<close> answers 401.
\<close>

definition example_auth :: deps where
  "example_auth =
     \<lparr>verify_password = (\<lambda>plain hashed. hashed = ''$2b$'' @ plain),
      get_password_hash = (\<lambda>plain. ''$2b$'' @ plain),
      create_access_token = (\<lambda>data ttl. ''sig.'' @ (case map_of data ''sub'' of None \<Rightarrow> [] | Some name \<Rightarrow> name)),
      decode_access_token =
        (\<lambda>token. if take 4 token = ''sig.'' then Some \<lparr>td_username = Some (drop 4 token)\<rparr>
                 else None),
      ACCESS_TOKEN_EXPIRE_MINUTES = 30,
      HTTPBearer_status = 401\<rparr>"

subsection \<open>A concrete database and concrete requests\<close>

text \<open>Two registered users with one movie each, and the request bodies the properties
  below are evaluated at.\<close>

definition alice :: User where
  "alice = \<lparr>User_id = 1, User_username = ''alice''\<rparr>"

definition bob :: User where
  "bob = \<lparr>User_id = 2, User_username = ''bob''\<rparr>"

definition dune :: Movie where
  "dune = \<lparr>movie_id = 1, title = ''Dune'', director = Some ''Villeneuve'', year = Some 2021,
           genre = Some ''sci-fi'', rating = Some (Finite 8), description = None, user_id = 1\<rparr>"

definition heat :: Movie where
  "heat = \<lparr>movie_id = 2, title = ''Heat'', director = Some ''Mann'', year = Some 1995,
           genre = None, rating = None, description = Some ''heist'', user_id = 2\<rparr>"

definition example_db :: db where
  "example_db =
     \<lparr>users = [\<lparr>users_id = 1, users_username = ''alice'', users_hashed_password = ''$2b$pw1''\<rparr>,
               \<lparr>users_id = 2, users_username = ''bob'', users_hashed_password = ''$2b$pw2''\<rparr>],
      movies = [dune, heat], users_seq = 2, movies_seq = 2, opened = 4\<rparr>"

definition no_body :: movie_body where
  "no_body = \<lparr>b_title = Absent, b_director = Absent, b_year = Absent, b_genre = Absent,
              b_rating = Absent, b_description = Absent\<rparr>"

definition rating_only :: movie_body where
  "rating_only = no_body\<lparr>b_rating := Value (Finite 9.5)\<rparr>"

definition title_null :: movie_body where
  "title_null = no_body\<lparr>b_title := Null, b_rating := Value (Finite 9.5)\<rparr>"

definition empty_title :: movie_body where
  "empty_title = no_body\<lparr>b_title := Value []\<rparr>"

definition full_body :: movie_body where
  "full_body = \<lparr>b_title = Value ''Alien'', b_director = Value ''Scott'', b_year = Value 1979,
                b_genre = Value ''horror'', b_rating = Value (Finite 8.5),
                b_description = Value ''In space''\<rparr>"

definition year_overflow :: movie_body where
  "year_overflow = no_body\<lparr>b_year := Value 9223372036854775808\<rparr>"

definition rating_nan :: movie_body where
  "rating_nan = no_body\<lparr>b_rating := Value NaN\<rparr>"

text \<open>The example database once its table \<open>movies\<close> has handed out the last id.\<close>

definition full_db :: db where
  "full_db = example_db\<lparr>movies_seq := 9223372036854775807\<rparr>"

text \<open>\<open>full_body\<close> once validated, and two variants of it.\<close>

definition alien :: MovieCreate where
  "alien = \<lparr>mc_title = ''Alien'', mc_director = Some ''Scott'', mc_year = Some 1979,
             mc_genre = Some ''horror'', mc_rating = Some (Finite 8.5),
             mc_description = Some ''In space''\<rparr>"

definition alien_nan :: MovieCreate where
  "alien_nan = alien\<lparr>mc_rating := Some NaN\<rparr>"

definition alien_late :: MovieCreate where
  "alien_late = alien\<lparr>mc_year := Some 9223372036854775808\<rparr>"

section \<open>Properties\<close>



lemma select_movie_owned_None:
  "select_movie_owned ms mid uid = None \<longleftrightarrow> (\<forall>m \<in> set ms. \<not> (movie_id m = mid \<and> user_id m = uid))"
  by (auto simp: select_movie_owned_def find_None_iff)

lemma select_movie_owned_Some:
  "select_movie_owned ms mid uid = Some m \<Longrightarrow> m \<in> set ms \<and> movie_id m = mid \<and> user_id m = uid"
  by (auto simp: select_movie_owned_def find_Some_iff)

lemma get_db_tables [simp]:
  "movies (get_db s) = movies s" "users (get_db s) = users s"
  "movies_seq (get_db s) = movies_seq s" "users_seq (get_db s) = users_seq s"
  by (simp_all add: get_db_def)

lemma wf_get_db [simp]: "wf_db (get_db s) = wf_db s"
  by (simp add: wf_db_def)

lemma wf_stored_id: "wf_db s \<Longrightarrow> m \<in> set (movies s) \<Longrightarrow> int64 (movie_id m)"
  by (simp add: wf_db_def)

lemma get_movie_overflow: "\<not> int64 mid \<Longrightarrow> get_movie s mid u = (Inl OverflowError, get_db s)"
  by (simp add: get_movie_def)

lemma update_movie_overflow:
  "\<not> int64 mid \<Longrightarrow> update_movie s mid upd u = (Inl OverflowError, get_db s)"
  by (simp add: update_movie_def)

lemma delete_movie_overflow:
  "\<not> int64 mid \<Longrightarrow> delete_movie s mid u = (Inl OverflowError, get_db s)"
  by (simp add: delete_movie_def)

lemma get_movie_None:
  "int64 mid \<Longrightarrow> select_movie_owned (movies s) mid (User_id u) = None \<Longrightarrow>
   get_movie s mid u = (Inl NotFound, get_db s)"
  by (simp add: get_movie_def NotFound_def)

lemma get_movie_Some:
  "int64 mid \<Longrightarrow> select_movie_owned (movies s) mid (User_id u) = Some m \<Longrightarrow>
   get_movie s mid u = (Inr m, get_db s)"
  by (simp add: get_movie_def)

lemma update_movie_None:
  "int64 mid \<Longrightarrow> select_movie_owned (movies s) mid (User_id u) = None \<Longrightarrow>
   update_movie s mid upd u = (Inl NotFound, get_db s)"
  by (simp add: update_movie_def NotFound_def)

lemma delete_movie_None:
  "int64 mid \<Longrightarrow> select_movie_owned (movies s) mid (User_id u) = None \<Longrightarrow>
   delete_movie s mid u = (Inl NotFound, get_db s)"
  by (simp add: delete_movie_def delete_rows_def NotFound_def select_movie_owned_None
      filter_empty_conv)

lemma delete_movie_Some:
  "int64 mid \<Longrightarrow> select_movie_owned (movies s) mid (User_id u) = Some m \<Longrightarrow>
   delete_movie s mid u =
     (Inr (), (get_db s)\<lparr>movies := filter (\<lambda>r. \<not> (movie_id r = mid \<and> user_id r = User_id u))
                                        (movies s)\<rparr>)"
proof -
  assume i: "int64 mid" and f: "select_movie_owned (movies s) mid (User_id u) = Some m"
  from f have "filter (\<lambda>r. movie_id r = mid \<and> user_id r = User_id u) (movies s) \<noteq> []"
    by (auto simp: filter_empty_conv dest!: select_movie_owned_Some)
  with i show ?thesis
    by (simp add: delete_movie_def delete_rows_def)
qed

lemma assign_Inl:
  "assign a m = Inl e \<Longrightarrow> e = IntegrityError ''NOT NULL constraint failed: movies.title''"
  by (cases "(a, m)" rule: assign.cases) auto

lemma assign_all_Inl:
  "assign_all as m = Inl e \<Longrightarrow> e = IntegrityError ''NOT NULL constraint failed: movies.title''"
  by (induction as arbitrary: m) (auto dest: assign_Inl split: sum.splits)

lemma update_rows_Inl:
  "update_rows as mid uid ms = Inl e \<Longrightarrow> e = IntegrityError ''NOT NULL constraint failed: movies.title''"
  by (induction ms) (auto dest: assign_all_Inl split: sum.splits if_splits)

lemma execute_update_Inl:
  "execute_update s as mid uid = Inl e \<Longrightarrow>
   e = OverflowError \<or> e = IntegrityError ''NOT NULL constraint failed: movies.title''"
  by (auto simp: execute_update_def dest: update_rows_Inl split: if_splits sum.splits)

text \<open>What \<open>update_movie\<close> leaves behind, in every case.\<close>

lemma update_movie_state:
  "snd (update_movie s mid upd u) = get_db s \<or>
   (\<exists>ms'. update_rows (model_dump_exclude_unset upd) mid (User_id u) (movies s) = Inr ms' \<and>
          snd (update_movie s mid upd u) = (get_db s)\<lparr>movies := ms'\<rparr>)"
proof (cases "int64 mid")
  case False
  then show ?thesis by (simp add: update_movie_overflow)
next
  case True
  show ?thesis
  proof (cases "select_movie_owned (movies s) mid (User_id u)")
    case None
    with True show ?thesis by (simp add: update_movie_None)
  next
    case (Some m)
    show ?thesis
    proof (cases "model_dump_exclude_unset upd = []")
      case empty: True
      with Some True have "snd (update_movie s mid upd u) = get_db s"
        by (cases "select_movie_by_id (movies s) mid") (simp_all add: update_movie_def)
      then show ?thesis ..
    next
      case False
      show ?thesis
      proof (cases "execute_update (get_db s) (model_dump_exclude_unset upd) mid (User_id u)")
        case (Inl e)
        with Some False True have "snd (update_movie s mid upd u) = get_db s"
          by (simp add: update_movie_def)
        then show ?thesis ..
      next
        case (Inr s2)
        then obtain ms' where
          rows: "update_rows (model_dump_exclude_unset upd) mid (User_id u) (movies s) = Inr ms'"
          and s2: "s2 = (get_db s)\<lparr>movies := ms'\<rparr>"
          by (auto simp: execute_update_def split: if_splits sum.splits)
        from Some False True Inr have "snd (update_movie s mid upd u) = s2"
          by (cases "select_movie_by_id (movies s2) mid") (simp_all add: update_movie_def)
        with rows s2 show ?thesis by simp
      qed
    qed
  qed
qed

lemma update_movie_not_NotFound:
  assumes "int64 mid" and "select_movie_owned (movies s) mid (User_id u) = Some m"
  shows "fst (update_movie s mid upd u) \<noteq> Inl NotFound"
proof (cases "model_dump_exclude_unset upd = []")
  case True
  with assms show ?thesis
    by (cases "select_movie_by_id (movies s) mid") (simp_all add: update_movie_def NotFound_def)
next
  case False
  show ?thesis
  proof (cases "execute_update (get_db s) (model_dump_exclude_unset upd) mid (User_id u)")
    case (Inl e)
    with assms False have "fst (update_movie s mid upd u) = Inl e"
      by (simp add: update_movie_def)
    with execute_update_Inl [OF Inl] show ?thesis
      by (auto simp: NotFound_def)
  next
    case (Inr s2)
    with assms False show ?thesis
      by (cases "select_movie_by_id (movies s2) mid") (simp_all add: update_movie_def NotFound_def)
  qed
qed

lemma get_movie_NotFound_iff:
  "int64 mid \<Longrightarrow>
   fst (get_movie s mid u) = Inl NotFound \<longleftrightarrow> select_movie_owned (movies s) mid (User_id u) = None"
  by (cases "select_movie_owned (movies s) mid (User_id u)")
     (simp_all add: get_movie_None get_movie_Some)

lemma delete_movie_NotFound_iff:
  "int64 mid \<Longrightarrow>
   fst (delete_movie s mid u) = Inl NotFound \<longleftrightarrow> select_movie_owned (movies s) mid (User_id u) = None"
  by (cases "select_movie_owned (movies s) mid (User_id u)")
     (simp_all add: delete_movie_None delete_movie_Some)

lemma update_movie_NotFound_iff:
  "int64 mid \<Longrightarrow>
   fst (update_movie s mid upd u) = Inl NotFound \<longleftrightarrow> select_movie_owned (movies s) mid (User_id u) = None"
  by (cases "select_movie_owned (movies s) mid (User_id u)")
     (simp_all add: update_movie_None update_movie_not_NotFound)


lemma assign_all_append:
  "assign_all (xs @ ys) m = (case assign_all xs m of Inl e \<Rightarrow> Inl e | Inr m' \<Rightarrow> assign_all ys m')"
  by (induction xs arbitrary: m) (auto split: sum.splits)

lemma assign_all_title:
  "assign_all (dump_field Title f) m =
     (case f of Absent \<Rightarrow> Inr m
      | Null \<Rightarrow> Inl (IntegrityError ''NOT NULL constraint failed: movies.title'')
      | Value t \<Rightarrow> Inr (m\<lparr>title := t\<rparr>))"
  by (simp add: dump_field_def split: field.splits)

lemma assign_all_director:
  "assign_all (dump_field Director f) m = Inr (m\<lparr>director := overwrite f (director m)\<rparr>)"
  by (simp add: dump_field_def overwrite_def split: field.splits)

lemma assign_all_year:
  "assign_all (dump_field Year f) m = Inr (m\<lparr>year := overwrite f (year m)\<rparr>)"
  by (simp add: dump_field_def overwrite_def split: field.splits)

lemma assign_all_genre:
  "assign_all (dump_field Genre f) m = Inr (m\<lparr>genre := overwrite f (genre m)\<rparr>)"
  by (simp add: dump_field_def overwrite_def split: field.splits)

lemma assign_all_rating:
  "assign_all (dump_field Rating f) m = Inr (m\<lparr>rating := overwrite_real f (rating m)\<rparr>)"
  by (simp add: dump_field_def overwrite_real_def split: field.splits)

lemma assign_all_description:
  "assign_all (dump_field Description f) m = Inr (m\<lparr>description := overwrite f (description m)\<rparr>)"
  by (simp add: dump_field_def overwrite_def split: field.splits)

lemmas assign_all_fields =
  assign_all_title assign_all_director assign_all_year assign_all_genre assign_all_rating
  assign_all_description

lemma assign_all_dump:
  "b_title u \<noteq> Null \<Longrightarrow> assign_all (model_dump_exclude_unset u) m = Inr (sparse_update u m)"
  by (cases "b_title u")
     (simp_all add: model_dump_exclude_unset_def assign_all_append assign_all_fields
        sparse_update_def)

lemma assign_all_dump_null:
  "b_title u = Null \<Longrightarrow>
   assign_all (model_dump_exclude_unset u) m =
     Inl (IntegrityError ''NOT NULL constraint failed: movies.title'')"
  by (simp add: model_dump_exclude_unset_def assign_all_append assign_all_title)

lemma bindable_dump: "list_all bindable (model_dump_exclude_unset u) \<longleftrightarrow> year_fits u"
  by (simp add: model_dump_exclude_unset_def dump_field_def year_fits_def bindable_year_def
      split: field.splits)

lemma update_rows_total:
  "(\<And>r. assign_all as r = Inr (f r)) \<Longrightarrow>
   update_rows as mid uid ms =
     Inr (map (\<lambda>r. if movie_id r = mid \<and> user_id r = uid then f r else r) ms)"
  by (induction ms) simp_all

lemma update_rows_fails:
  "(\<And>r. assign_all as r = Inl e) \<Longrightarrow> select_movie_owned ms mid uid = Some m \<Longrightarrow>
   update_rows as mid uid ms = Inl e"
  by (induction ms) (auto simp: select_movie_owned_def split: if_splits)

lemma sparse_update_ids [simp]:
  "movie_id (sparse_update u m) = movie_id m" "user_id (sparse_update u m) = user_id m"
  by (simp_all add: sparse_update_def)

lemma no_fields_dump: "no_fields u \<longleftrightarrow> model_dump_exclude_unset u = []"
  by (auto simp: no_fields_def model_dump_exclude_unset_def dump_field_def split: field.splits)

lemma no_fields_sparse: "no_fields u \<Longrightarrow> sparse_update u m = m"
  by (simp add: no_fields_def sparse_update_def overwrite_def overwrite_real_def)

lemma find_unique_owned:
  "distinct (map movie_id ms) \<Longrightarrow> m \<in> set ms \<Longrightarrow> (\<And>r. movie_id (g r) = movie_id r) \<Longrightarrow>
   Q (g m) \<Longrightarrow> find (\<lambda>r. movie_id r = movie_id m \<and> Q r) (map g ms) = Some (g m)"
  by (induction ms) (auto simp: image_iff)

lemma find_unique_id:
  "distinct (map movie_id ms) \<Longrightarrow> m \<in> set ms \<Longrightarrow> (\<And>r. movie_id (g r) = movie_id r) \<Longrightarrow>
   find (\<lambda>r. movie_id r = movie_id m) (map g ms) = Some (g m)"
  using find_unique_owned [of ms m g "\<lambda>_. True"] by simp

lemma update_movie_found:
  assumes "distinct (map movie_id (movies s))"
    and "int64 mid"
    and "select_movie_owned (movies s) mid (User_id u) = Some m"
    and "b_title upd \<noteq> Null"
    and "year_fits upd"
  shows "update_movie s mid upd u =
           (Inr (sparse_update upd m),
            (get_db s)\<lparr>movies := map (\<lambda>r. if movie_id r = mid \<and> user_id r = User_id u
                                              then sparse_update upd r else r) (movies s)\<rparr>)"
proof -
  from assms(3) have m: "m \<in> set (movies s)" "movie_id m = mid" "user_id m = User_id u"
    by (auto dest: select_movie_owned_Some)
  let ?g = "\<lambda>r. if movie_id r = mid \<and> user_id r = User_id u then sparse_update upd r else r"
  have rows: "update_rows (model_dump_exclude_unset upd) mid (User_id u) (movies s) =
                Inr (map ?g (movies s))"
    by (rule update_rows_total) (simp add: assign_all_dump assms(4))
  have exec: "execute_update (get_db s) (model_dump_exclude_unset upd) mid (User_id u) =
                Inr ((get_db s)\<lparr>movies := map ?g (movies s)\<rparr>)"
    using rows assms(5) by (simp add: execute_update_def bindable_dump)
  have "find (\<lambda>r. movie_id r = movie_id m) (map ?g (movies s)) = Some (?g m)"
    by (rule find_unique_id [OF assms(1) m(1)]) simp
  then have sel: "select_movie_by_id (map ?g (movies s)) mid = Some (sparse_update upd m)"
    using m by (simp add: select_movie_by_id_def)
  show ?thesis
  proof (cases "model_dump_exclude_unset upd = []")
    case True
    then have nf: "no_fields upd" by (simp add: no_fields_dump)
    have "map ?g (movies s) = movies s"
      by (rule map_idI) (simp add: no_fields_sparse [OF nf])
    with sel True assms(2,3) show ?thesis
      by (simp add: update_movie_def get_db_def)
  next
    case False
    with sel exec assms(2,3) show ?thesis
      by (simp add: update_movie_def)
  qed
qed

text \<open>
  Claim C4, as amended. For a movie the caller owns and a request that does not set
  \<open>title\<close> to \<open>null\<close> and whose year, if present, fits in 64 bits, \<open>update_movie\<close> returns
  the stored record with exactly the members present in the request overwritten
  (\<open>sparse_update\<close>: a rating is overwritten by what the column holds for it, \<open>null\<close> for
  NaN and \<open>0.0\<close> for negative zero), stores that record in place of the old one and
  changes no other row; a following \<open>get_movie\<close> returns the same record. With no member
  present the table is unchanged and the stored record is returned.
\<close>

theorem sparse_update_applied:
  assumes "wf_db s"
    and "select_movie_owned (movies s) mid (User_id u) = Some m"
    and "b_title upd \<noteq> Null"
    and "year_fits upd"
  shows "\<exists>s'. update_movie s mid upd u = (Inr (sparse_update upd m), s') \<and>
              movies s' = map (\<lambda>r. if movie_id r = mid then sparse_update upd r else r) (movies s) \<and>
              users s' = users s \<and>
              fst (get_movie s' mid u) = Inr (sparse_update upd m) \<and>
              (no_fields upd \<longrightarrow> sparse_update upd m = m \<and> movies s' = movies s)"
proof -
  from assms(1) have d: "distinct (map movie_id (movies s))" by (simp add: wf_db_def)
  from assms(2) have m: "m \<in> set (movies s)" "movie_id m = mid" "user_id m = User_id u"
    by (auto dest: select_movie_owned_Some)
  from assms(1) m have i: "int64 mid" by (auto dest: wf_stored_id)
  let ?g = "\<lambda>r. if movie_id r = mid \<and> user_id r = User_id u then sparse_update upd r else r"
  let ?h = "\<lambda>r. if movie_id r = mid then sparse_update upd r else r"
  let ?s' = "(get_db s)\<lparr>movies := map ?h (movies s)\<rparr>"
  have owner: "\<And>r. r \<in> set (movies s) \<Longrightarrow> movie_id r = mid \<Longrightarrow> r = m"
    using d m by (auto simp: distinct_map dest: inj_onD)
  have gh: "map ?g (movies s) = map ?h (movies s)"
    by (rule map_cong) (auto dest: owner simp: m)
  have upd: "update_movie s mid upd u = (Inr (sparse_update upd m), ?s')"
    unfolding gh [symmetric] by (rule update_movie_found [OF d i assms(2,3,4)])
  have "find (\<lambda>r. movie_id r = movie_id m \<and> user_id r = User_id u) (map ?h (movies s)) = Some (?h m)"
    by (rule find_unique_owned [OF d m(1)]) (simp_all add: m)
  then have "select_movie_owned (map ?h (movies s)) mid (User_id u) = Some (sparse_update upd m)"
    using m by (simp add: select_movie_owned_def)
  then have get: "fst (get_movie ?s' mid u) = Inr (sparse_update upd m)"
    using i by (simp add: get_movie_def)
  have nf: "no_fields upd \<longrightarrow> sparse_update upd m = m \<and> movies ?s' = movies s"
    by (auto simp: no_fields_sparse intro: map_idI)
  have frame: "movies ?s' = map ?h (movies s)" "users ?s' = users s"
    by simp_all
  show ?thesis
    using upd get nf frame by blast
qed


lemma get_current_user_state:
  "get_current_user A s token = (r, s1) \<Longrightarrow> s1 = s \<or> s1 = get_db s"
  by (auto simp: get_current_user_def Let_def split: option.splits)

lemma get_current_user_tables:
  "get_current_user A s token = (r, s1) \<Longrightarrow> movies s1 = movies s \<and> users s1 = users s"
  using get_current_user_state [of A s token r s1] by auto

lemma authenticated_tables:
  "authenticated A s credentials u s1 \<Longrightarrow> movies s1 = movies s \<and> users s1 = users s"
  by (auto simp: authenticated_def dest: get_current_user_tables split: option.splits)

lemma authenticated_wf: "authenticated A s credentials u s1 \<Longrightarrow> wf_db s1 = wf_db s"
  by (auto simp: authenticated_def dest!: get_current_user_state split: option.splits)

lemma protected_authenticated:
  "authenticated A s credentials u s1 \<Longrightarrow> protected A s credentials h = h s1 u"
  by (auto simp: authenticated_def protected_def security_def split: option.splits)

lemma wf_example_db: "wf_db example_db"
  by (simp add: wf_db_def example_db_def dune_def heat_def int64_def)

lemma alice_authenticated:
  "authenticated example_auth example_db (Some ''sig.alice'') alice (get_db example_db)"
  by (simp add: authenticated_def get_current_user_def example_auth_def example_db_def
      select_user_def get_db_def alice_def)

lemma alice_owns_dune: "select_movie_owned (movies example_db) 1 (User_id alice) = Some dune"
  by (simp add: select_movie_owned_def example_db_def dune_def alice_def)

text \<open>
  Claim C10, as amended. An update request of an authenticated owner in which \<open>title\<close> is
  present with the value \<open>null\<close> passes validation; \<open>title = ?\<close> opens the generated \<open>SET\<close>
  clause with \<open>None\<close> as its value. When the year it carries, if any, fits in 64 bits, the
  statement violates \<open>NOT NULL\<close> and the request ends in the uncaught \<open>IntegrityError\<close>;
  otherwise binding raises the uncaught \<open>OverflowError\<close> before the statement runs. In
  neither case is it a validation error, and the table \<open>movies\<close> is unchanged.
\<close>

theorem update_title_null_storage_fault:
  assumes "wf_db s"
    and "authenticated A s credentials u s1"
    and "select_movie_owned (movies s1) mid (User_id u) = Some m"
    and "b_title body = Null"
  shows "validate_MovieUpdate body = Inr body \<and>
         Title None \<in> set (model_dump_exclude_unset body) \<and>
         take 9 (set_clause (model_dump_exclude_unset body)) = ''title = ?'' \<and>
         handle A s (UpdateMovie credentials mid body) =
           (Inl (if year_fits body
                 then IntegrityError ''NOT NULL constraint failed: movies.title''
                 else OverflowError), get_db s1) \<and>
         movies (get_db s1) = movies s"
proof -
  have same: "movies s1 = movies s"
    using authenticated_tables [OF assms(2)] by simp
  from assms(3) have "m \<in> set (movies s)" "movie_id m = mid"
    using same by (auto dest: select_movie_owned_Some)
  with assms(1) have i: "int64 mid"
    by (auto dest: wf_stored_id)
  have dump: "model_dump_exclude_unset body =
                Title None # (dump_field Director (b_director body) @
                  dump_field Year (b_year body) @ dump_field Genre (b_genre body) @
                  dump_field Rating (b_rating body) @ dump_field Description (b_description body))"
    (is "_ = _ # ?rest")
    using assms(4) by (simp add: model_dump_exclude_unset_def dump_field_def)
  have clause: "take 9 (set_clause (model_dump_exclude_unset body)) = ''title = ?''"
    unfolding dump set_clause_def by (cases ?rest) simp_all
  have rows: "update_rows (model_dump_exclude_unset body) mid (User_id u) (movies s1) =
                Inl (IntegrityError ''NOT NULL constraint failed: movies.title'')"
    by (rule update_rows_fails [OF _ assms(3)]) (rule assign_all_dump_null [OF assms(4)])
  have exec: "execute_update (get_db s1) (model_dump_exclude_unset body) mid (User_id u) =
                Inl (if year_fits body
                     then IntegrityError ''NOT NULL constraint failed: movies.title''
                     else OverflowError)"
    using rows by (simp add: execute_update_def bindable_dump)
  have ne: "model_dump_exclude_unset body \<noteq> []"
    by (simp add: dump)
  have upd: "update_movie s1 mid body u =
               (Inl (if year_fits body
                     then IntegrityError ''NOT NULL constraint failed: movies.title''
                     else OverflowError), get_db s1)"
    using exec assms(3) i ne by (simp add: update_movie_def)
  have h: "handle A s (UpdateMovie credentials mid body) =
             respond MovieResponse (update_movie s1 mid body u)"
    by (simp add: protected_authenticated [OF assms(2)] validate_MovieUpdate_def)
  show ?thesis
    unfolding h upd using dump clause same
    by (simp add: validate_MovieUpdate_def respond_def)
qed

theorem update_title_null_storage_fault_witness:
  "wf_db example_db \<and>
   authenticated example_auth example_db (Some ''sig.alice'') alice (get_db example_db) \<and>
   select_movie_owned (movies (get_db example_db)) 1 (User_id alice) = Some dune \<and>
   b_title title_null = Null \<and>
   set_clause (model_dump_exclude_unset title_null) = ''title = ?, rating = ?'' \<and>
   handle example_auth example_db (UpdateMovie (Some ''sig.alice'') 1 title_null) =
     (Inl (IntegrityError ''NOT NULL constraint failed: movies.title''),
      get_db (get_db example_db)) \<and>
   movies (get_db (get_db example_db)) = [dune, heat]"
proof -
  have a: "select_movie_owned (movies (get_db example_db)) 1 (User_id alice) = Some dune"
    using alice_owns_dune by simp
  have b: "b_title title_null = Null"
    by (simp add: title_null_def)
  have c: "set_clause (model_dump_exclude_unset title_null) = ''title = ?, rating = ?''"
    by (simp add: set_clause_def model_dump_exclude_unset_def dump_field_def title_null_def
        no_body_def)
  have d: "movies example_db = [dune, heat]"
    by (simp add: example_db_def)
  have y: "year_fits title_null"
    by (simp add: year_fits_def title_null_def no_body_def)
  show ?thesis
    using update_title_null_storage_fault [OF wf_example_db alice_authenticated a b]
      wf_example_db alice_authenticated a b c d y
    by (simp del: handle.simps)
qed

text \<open>
  Claim C10 as stated fails for a request that carries \<open>title: null\<close> and a year of
  \<open>2^63\<close>: the write fails at binding with \<open>OverflowError\<close>, and the \<open>NOT NULL\<close> constraint
  is never reached.
\<close>

theorem title_null_year_overflow_counterexample:
  "b_title (title_null\<lparr>b_year := Value 9223372036854775808\<rparr>) = Null \<and>
   select_movie_owned (movies example_db) 1 (User_id alice) = Some dune \<and>
   update_movie example_db 1 (title_null\<lparr>b_year := Value 9223372036854775808\<rparr>) alice =
     (Inl OverflowError, get_db example_db)"
proof -
  let ?b = "title_null\<lparr>b_year := Value 9223372036854775808\<rparr>"
  have "\<not> list_all bindable (model_dump_exclude_unset ?b)"
    by (simp add: bindable_dump year_fits_def int64_def)
  moreover have "model_dump_exclude_unset ?b \<noteq> []"
    by (simp add: model_dump_exclude_unset_def dump_field_def title_null_def)
  moreover have "int64 1"
    by (simp add: int64_def)
  ultimately have "update_movie example_db 1 ?b alice = (Inl OverflowError, get_db example_db)"
    using alice_owns_dune by (simp add: update_movie_def execute_update_def)
  then show ?thesis
    using alice_owns_dune by (simp add: title_null_def)
qed


theorem sparse_update_applied_witness:
  "wf_db example_db \<and>
   select_movie_owned (movies example_db) 1 (User_id alice) = Some dune \<and>
   b_title rating_only \<noteq> Null \<and> year_fits rating_only \<and>
   fst (update_movie example_db 1 rating_only alice) =
     Inr \<lparr>movie_id = 1, title = ''Dune'', director = Some ''Villeneuve'', year = Some 2021,
          genre = Some ''sci-fi'', rating = Some (Finite 9.5), description = None,
          user_id = 1\<rparr> \<and>
   fst (get_movie (snd (update_movie example_db 1 rating_only alice)) 1 alice) =
     Inr \<lparr>movie_id = 1, title = ''Dune'', director = Some ''Villeneuve'', year = Some 2021,
          genre = Some ''sci-fi'', rating = Some (Finite 9.5), description = None,
          user_id = 1\<rparr> \<and>
   fst (update_movie example_db 1 no_body alice) = Inr dune \<and>
   movies (snd (update_movie example_db 1 no_body alice)) = movies example_db"
proof -
  have t: "b_title rating_only \<noteq> Null" "b_title no_body \<noteq> Null"
    by (simp_all add: rating_only_def no_body_def)
  have y: "year_fits rating_only" "year_fits no_body"
    by (simp_all add: year_fits_def rating_only_def no_body_def)
  have n: "no_fields no_body"
    by (simp add: no_fields_def no_body_def)
  have v: "sparse_update rating_only dune =
             \<lparr>movie_id = 1, title = ''Dune'', director = Some ''Villeneuve'', year = Some 2021,
              genre = Some ''sci-fi'', rating = Some (Finite 9.5), description = None,
              user_id = 1\<rparr>"
    by (simp add: sparse_update_def rating_only_def no_body_def overwrite_def overwrite_real_def
        dune_def)
  show ?thesis
    using sparse_update_applied [OF wf_example_db alice_owns_dune t(1) y(1)]
      sparse_update_applied [OF wf_example_db alice_owns_dune t(2) y(2)]
      wf_example_db alice_owns_dune t(1) y(1) n
    by (auto simp: v)
qed

lemma example_update:
  assumes "b_title b \<noteq> Null" and "year_fits b"
  shows "update_movie example_db 1 b alice =
           (Inr (sparse_update b dune),
            (get_db example_db)\<lparr>movies := [sparse_update b dune, heat]\<rparr>)"
proof -
  have d: "distinct (map movie_id (movies example_db))"
    using wf_example_db by (simp add: wf_db_def)
  have i: "int64 1" by (simp add: int64_def)
  have "map (\<lambda>r. if movie_id r = 1 \<and> user_id r = User_id alice then sparse_update b r else r)
          (movies example_db) = [sparse_update b dune, heat]"
    by (simp add: example_db_def dune_def heat_def alice_def)
  with update_movie_found [OF d i alice_owns_dune assms] show ?thesis
    by simp
qed

text \<open>
  Claim C4 as stated fails at three requests on a movie the caller owns. With
  \<open>title: null\<close> next to a rating, the rating is not written and no record is returned.
  With a year of \<open>2^63\<close>, binding raises \<open>OverflowError\<close>, the year is not written and no
  record is returned. With a NaN rating, the record returned has the rating \<open>null\<close>.
\<close>

theorem sparse_update_unwritten_counterexample:
  "select_movie_owned (movies example_db) 1 (User_id alice) = Some dune \<and>
   rating dune = Some (Finite 8) \<and> year dune = Some 2021 \<and>
   b_rating title_null = Value (Finite 9.5) \<and>
   update_movie example_db 1 title_null alice =
     (Inl (IntegrityError ''NOT NULL constraint failed: movies.title''), get_db example_db) \<and>
   b_year year_overflow = Value 9223372036854775808 \<and>
   update_movie example_db 1 year_overflow alice = (Inl OverflowError, get_db example_db) \<and>
   movies (get_db example_db) = [dune, heat] \<and>
   b_rating rating_nan = Value NaN \<and>
   fst (update_movie example_db 1 rating_nan alice) = Inr (dune\<lparr>rating := None\<rparr>)"
proof -
  have i: "int64 1" by (simp add: int64_def)
  have "update_rows (model_dump_exclude_unset title_null) 1 (User_id alice) (movies example_db) =
          Inl (IntegrityError ''NOT NULL constraint failed: movies.title'')"
    by (rule update_rows_fails [OF _ alice_owns_dune])
       (simp add: assign_all_dump_null title_null_def)
  moreover have "model_dump_exclude_unset title_null \<noteq> []"
    by (simp add: model_dump_exclude_unset_def dump_field_def title_null_def no_body_def)
  moreover have "year_fits title_null"
    by (simp add: year_fits_def title_null_def no_body_def)
  ultimately have a: "update_movie example_db 1 title_null alice =
     (Inl (IntegrityError ''NOT NULL constraint failed: movies.title''), get_db example_db)"
    using alice_owns_dune i
    by (simp add: update_movie_def execute_update_def bindable_dump)
  have "\<not> year_fits year_overflow"
    by (simp add: year_fits_def year_overflow_def int64_def)
  moreover have "model_dump_exclude_unset year_overflow \<noteq> []"
    by (simp add: model_dump_exclude_unset_def dump_field_def year_overflow_def no_body_def)
  ultimately have b: "update_movie example_db 1 year_overflow alice =
     (Inl OverflowError, get_db example_db)"
    using alice_owns_dune i
    by (simp add: update_movie_def execute_update_def bindable_dump)
  have "sparse_update rating_nan dune = dune\<lparr>rating := None\<rparr>"
    by (simp add: sparse_update_def rating_nan_def no_body_def overwrite_def overwrite_real_def)
  moreover have "b_title rating_nan \<noteq> Null" "year_fits rating_nan"
    by (simp_all add: rating_nan_def no_body_def year_fits_def)
  ultimately have c: "fst (update_movie example_db 1 rating_nan alice) = Inr (dune\<lparr>rating := None\<rparr>)"
    by (simp add: example_update)
  have d: "movies (get_db example_db) = [dune, heat]"
    by (simp add: example_db_def)
  have e: "rating dune = Some (Finite 8)" "year dune = Some 2021"
    "b_rating title_null = Value (Finite 9.5)" "b_year year_overflow = Value 9223372036854775808"
    "b_rating rating_nan = Value NaN"
    by (simp_all add: dune_def title_null_def year_overflow_def rating_nan_def no_body_def)
  show ?thesis
    using a b c d e alice_owns_dune by simp
qed

lemma foreign_not_selected:
  assumes "distinct (map movie_id ms)" and "m \<in> set ms" and "user_id m \<noteq> uid"
  shows "select_movie_owned ms (movie_id m) uid = None"
proof -
  have "r = m" if "r \<in> set ms" "movie_id r = movie_id m" for r
    using assms(1,2) that by (auto simp: distinct_map dest: inj_onD)
  with assms(3) show ?thesis
    by (auto simp: select_movie_owned_None)
qed

text \<open>
  Claim C1. In a well-formed database, let \<open>m\<close> be a stored movie and \<open>B\<close> a user whose id
  is not \<open>m\<close>'s owner. Then \<open>m\<close> is not among the rows \<open>get_movies\<close> returns to \<open>B\<close> (all of
  which \<open>B\<close> owns), and \<open>get_movie\<close>, \<open>update_movie\<close> (with any request) and \<open>delete_movie\<close>
  called by \<open>B\<close> with \<open>m\<close>'s id all raise 404 ``Movie not found'' and leave the table
  \<open>movies\<close> as it was.
\<close>

theorem ownership_isolation:
  assumes "wf_db s" and "m \<in> set (movies s)" and "user_id m \<noteq> User_id B"
  shows "(\<exists>rows. get_movies s B = (Inr rows, get_db s) \<and> m \<notin> set rows \<and>
                 (\<forall>r \<in> set rows. user_id r = User_id B)) \<and>
         get_movie s (movie_id m) B = (Inl NotFound, get_db s) \<and>
         update_movie s (movie_id m) upd B = (Inl NotFound, get_db s) \<and>
         delete_movie s (movie_id m) B = (Inl NotFound, get_db s) \<and>
         movies (get_db s) = movies s"
proof -
  from assms have none: "select_movie_owned (movies s) (movie_id m) (User_id B) = None"
    by (intro foreign_not_selected) (simp_all add: wf_db_def)
  from assms(1,2) have i: "int64 (movie_id m)"
    by (rule wf_stored_id)
  have "get_movies s B = (Inr (select_movies_of (movies s) (User_id B)), get_db s)"
    by (simp add: get_movies_def)
  moreover have "m \<notin> set (select_movies_of (movies s) (User_id B))"
    using assms(3) by (simp add: select_movies_of_def)
  moreover have "\<forall>r \<in> set (select_movies_of (movies s) (User_id B)). user_id r = User_id B"
    by (simp add: select_movies_of_def)
  ultimately show ?thesis
    using get_movie_None [OF i none] update_movie_None [OF i none] delete_movie_None [OF i none]
    by simp
qed

theorem ownership_isolation_witness:
  "wf_db example_db \<and> dune \<in> set (movies example_db) \<and> user_id dune \<noteq> User_id bob \<and>
   get_movies example_db bob = (Inr [heat], get_db example_db) \<and>
   get_movie example_db 1 bob = (Inl NotFound, get_db example_db) \<and>
   update_movie example_db 1 rating_only bob = (Inl NotFound, get_db example_db) \<and>
   delete_movie example_db 1 bob = (Inl NotFound, get_db example_db) \<and>
   movies (get_db example_db) = [dune, heat] \<and>
   fst (get_movie example_db 1 alice) = Inr dune"
proof -
  have a: "dune \<in> set (movies example_db)" by (simp add: example_db_def)
  have b: "user_id dune \<noteq> User_id bob" by (simp add: dune_def bob_def)
  have c: "movie_id dune = 1" by (simp add: dune_def)
  have d: "get_movies example_db bob = (Inr [heat], get_db example_db)"
    by (simp add: get_movies_def select_movies_of_def example_db_def dune_def heat_def bob_def)
  have e: "fst (get_movie example_db 1 alice) = Inr dune"
    using alice_owns_dune by (simp add: get_movie_def int64_def)
  have f: "movies example_db = [dune, heat]" by (simp add: example_db_def)
  show ?thesis
    using ownership_isolation [OF wf_example_db a b, of rating_only] wf_example_db a b d e f
    by (simp add: c)
qed


text \<open>
  Claim C2, as amended. For a movie id that fits in 64 bits, each of \<open>get_movie\<close>,
  \<open>update_movie\<close> and \<open>delete_movie\<close> raises 404 ``Movie not found'' exactly when no stored
  row satisfies the one predicate \<open>id = movie_id AND user_id = caller\<close>; so the three fail
  with the same error when no movie has the id and when the movie with that id belongs to
  somebody else. For an id that does not fit, the three raise \<open>OverflowError\<close> when the id
  is bound.
\<close>

theorem not_found_single_predicate:
  "(int64 mid \<longrightarrow>
      (fst (get_movie s mid u) = Inl NotFound \<longleftrightarrow>
         \<not> (\<exists>m \<in> set (movies s). movie_id m = mid \<and> user_id m = User_id u)) \<and>
      (fst (update_movie s mid upd u) = Inl NotFound \<longleftrightarrow>
         \<not> (\<exists>m \<in> set (movies s). movie_id m = mid \<and> user_id m = User_id u)) \<and>
      (fst (delete_movie s mid u) = Inl NotFound \<longleftrightarrow>
         \<not> (\<exists>m \<in> set (movies s). movie_id m = mid \<and> user_id m = User_id u)) \<and>
      ((\<forall>m \<in> set (movies s). movie_id m \<noteq> mid) \<or>
       (\<exists>m \<in> set (movies s). movie_id m = mid \<and> user_id m \<noteq> User_id u) \<and> wf_db s \<longrightarrow>
         fst (get_movie s mid u) = Inl NotFound \<and>
         fst (update_movie s mid upd u) = Inl NotFound \<and>
         fst (delete_movie s mid u) = Inl NotFound)) \<and>
   (\<not> int64 mid \<longrightarrow>
      fst (get_movie s mid u) = Inl OverflowError \<and>
      fst (update_movie s mid upd u) = Inl OverflowError \<and>
      fst (delete_movie s mid u) = Inl OverflowError)"
proof -
  have iff: "select_movie_owned (movies s) mid (User_id u) = None \<longleftrightarrow>
             \<not> (\<exists>m \<in> set (movies s). movie_id m = mid \<and> user_id m = User_id u)"
    by (simp add: select_movie_owned_None)
  have absent: "select_movie_owned (movies s) mid (User_id u) = None"
    if "\<forall>m \<in> set (movies s). movie_id m \<noteq> mid"
    using that by (simp add: select_movie_owned_None)
  have foreign: "select_movie_owned (movies s) mid (User_id u) = None"
    if "\<exists>m \<in> set (movies s). movie_id m = mid \<and> user_id m \<noteq> User_id u" "wf_db s"
  proof -
    from that obtain m where "m \<in> set (movies s)" "movie_id m = mid" "user_id m \<noteq> User_id u"
      by blast
    moreover from that have "distinct (map movie_id (movies s))" by (simp add: wf_db_def)
    ultimately show ?thesis
      using foreign_not_selected [of "movies s" m "User_id u"] by simp
  qed
  have fits: "(fst (get_movie s mid u) = Inl NotFound \<longleftrightarrow>
         \<not> (\<exists>m \<in> set (movies s). movie_id m = mid \<and> user_id m = User_id u)) \<and>
      (fst (update_movie s mid upd u) = Inl NotFound \<longleftrightarrow>
         \<not> (\<exists>m \<in> set (movies s). movie_id m = mid \<and> user_id m = User_id u)) \<and>
      (fst (delete_movie s mid u) = Inl NotFound \<longleftrightarrow>
         \<not> (\<exists>m \<in> set (movies s). movie_id m = mid \<and> user_id m = User_id u)) \<and>
      ((\<forall>m \<in> set (movies s). movie_id m \<noteq> mid) \<or>
       (\<exists>m \<in> set (movies s). movie_id m = mid \<and> user_id m \<noteq> User_id u) \<and> wf_db s \<longrightarrow>
         fst (get_movie s mid u) = Inl NotFound \<and>
         fst (update_movie s mid upd u) = Inl NotFound \<and>
         fst (delete_movie s mid u) = Inl NotFound)"
    if i: "int64 mid"
    unfolding get_movie_NotFound_iff [OF i] update_movie_NotFound_iff [OF i]
      delete_movie_NotFound_iff [OF i] iff [symmetric]
    by (intro conjI refl impI; elim disjE conjE; (rule absent foreign; assumption))
  have over: "fst (get_movie s mid u) = Inl OverflowError \<and>
      fst (update_movie s mid upd u) = Inl OverflowError \<and>
      fst (delete_movie s mid u) = Inl OverflowError"
    if "\<not> int64 mid"
    using that by (simp add: get_movie_overflow update_movie_overflow delete_movie_overflow)
  from fits over show ?thesis by blast
qed

theorem not_found_single_predicate_witness:
  "fst (get_movie example_db 7 alice) = Inl NotFound \<and>
   fst (update_movie example_db 7 rating_only alice) = Inl NotFound \<and>
   fst (delete_movie example_db 7 alice) = Inl NotFound \<and>
   fst (get_movie example_db 2 alice) = Inl NotFound \<and>
   fst (update_movie example_db 2 rating_only alice) = Inl NotFound \<and>
   fst (delete_movie example_db 2 alice) = Inl NotFound \<and>
   fst (get_movie example_db 1 alice) \<noteq> Inl NotFound \<and>
   fst (update_movie example_db 1 rating_only alice) \<noteq> Inl NotFound \<and>
   fst (delete_movie example_db 1 alice) \<noteq> Inl NotFound"
proof -
  have a: "\<forall>m \<in> set (movies example_db). movie_id m \<noteq> 7"
    by (simp add: example_db_def dune_def heat_def)
  have b: "\<exists>m \<in> set (movies example_db). movie_id m = 2 \<and> user_id m \<noteq> User_id alice"
    by (simp add: example_db_def dune_def heat_def alice_def)
  have c: "\<exists>m \<in> set (movies example_db). movie_id m = 1 \<and> user_id m = User_id alice"
    by (simp add: example_db_def dune_def heat_def alice_def)
  have i: "int64 7" "int64 2" "int64 1"
    by (simp_all add: int64_def)
  show ?thesis
    using not_found_single_predicate [of 7 example_db alice rating_only]
      not_found_single_predicate [of 2 example_db alice rating_only]
      not_found_single_predicate [of 1 example_db alice rating_only]
      a b c i wf_example_db
    by blast
qed

text \<open>
  Claim C2 as stated fails at the id \<open>2^63\<close>: no movie has it, yet none of the three
  handlers reports ``Movie not found''; each raises \<open>OverflowError\<close>.
\<close>

theorem absent_id_overflow_counterexample:
  "select_movie_by_id (movies example_db) 9223372036854775808 = None \<and>
   get_movie example_db 9223372036854775808 alice = (Inl OverflowError, get_db example_db) \<and>
   update_movie example_db 9223372036854775808 rating_only alice =
     (Inl OverflowError, get_db example_db) \<and>
   delete_movie example_db 9223372036854775808 alice = (Inl OverflowError, get_db example_db) \<and>
   OverflowError \<noteq> NotFound"
  by (simp add: select_movie_by_id_def example_db_def dune_def heat_def get_movie_def
      update_movie_def delete_movie_def int64_def NotFound_def)

lemma rejected_get_current_user:
  "rejected A token \<Longrightarrow> get_current_user A s token = (Inl Unauthorized, s)"
  by (simp add: rejected_def get_current_user_def Unauthorized_def split: option.splits)

lemma rejected_protected:
  "token \<noteq> [] \<Longrightarrow> rejected A token \<Longrightarrow> protected A s (Some token) h = (Inl Unauthorized, s)"
  by (simp add: protected_def security_def rejected_get_current_user)

lemma missing_protected:
  "credentials = None \<or> credentials = Some [] \<Longrightarrow>
   protected A s credentials h = (Inl (HTTPException (HTTPBearer_status A) ''Not authenticated''), s)"
  by (auto simp: protected_def security_def)

text \<open>
  Claim C5, as amended. A protected request (list, create, get, update, delete) whose
  token \<open>decode_access_token\<close> rejects, or decodes to claims without a username, is answered
  with 401 ``Invalid authentication credentials''. One without credentials is answered by
  \<open>HTTPBearer\<close> with ``Not authenticated'' and the status of the installed FastAPI. In both
  cases the database left is the database found: no table has changed and \<open>get_db()\<close> has
  not been called, so no statement has run against \<open>users\<close> or \<open>movies\<close>.
\<close>

theorem unauthorized_before_storage:
  "(token \<noteq> [] \<and> rejected A token \<longrightarrow>
      handle A s (ListMovies (Some token)) = (Inl Unauthorized, s) \<and>
      handle A s (CreateMovie (Some token) body) = (Inl Unauthorized, s) \<and>
      handle A s (GetMovie (Some token) mid) = (Inl Unauthorized, s) \<and>
      handle A s (UpdateMovie (Some token) mid body) = (Inl Unauthorized, s) \<and>
      handle A s (DeleteMovie (Some token) mid) = (Inl Unauthorized, s)) \<and>
   (credentials = None \<or> credentials = Some [] \<longrightarrow>
      handle A s (ListMovies credentials) =
        (Inl (HTTPException (HTTPBearer_status A) ''Not authenticated''), s) \<and>
      handle A s (CreateMovie credentials body) =
        (Inl (HTTPException (HTTPBearer_status A) ''Not authenticated''), s) \<and>
      handle A s (GetMovie credentials mid) =
        (Inl (HTTPException (HTTPBearer_status A) ''Not authenticated''), s) \<and>
      handle A s (UpdateMovie credentials mid body) =
        (Inl (HTTPException (HTTPBearer_status A) ''Not authenticated''), s) \<and>
      handle A s (DeleteMovie credentials mid) =
        (Inl (HTTPException (HTTPBearer_status A) ''Not authenticated''), s))"
  by (simp add: rejected_protected missing_protected)

theorem unauthorized_before_storage_witness:
  "rejected example_auth ''forged.alice'' \<and>
   handle example_auth example_db (ListMovies (Some ''forged.alice'')) =
     (Inl Unauthorized, example_db) \<and>
   handle example_auth example_db (CreateMovie (Some ''forged.alice'') full_body) =
     (Inl Unauthorized, example_db) \<and>
   handle example_auth example_db (GetMovie (Some ''forged.alice'') 1) =
     (Inl Unauthorized, example_db) \<and>
   handle example_auth example_db (UpdateMovie (Some ''forged.alice'') 1 full_body) =
     (Inl Unauthorized, example_db) \<and>
   handle example_auth example_db (DeleteMovie (Some ''forged.alice'') 1) =
     (Inl Unauthorized, example_db) \<and>
   handle example_auth example_db (ListMovies None) =
     (Inl (HTTPException 401 ''Not authenticated''), example_db) \<and>
   handle example_auth example_db (DeleteMovie None 1) =
     (Inl (HTTPException 401 ''Not authenticated''), example_db)"
proof -
  have r: "rejected example_auth ''forged.alice''"
    by (simp add: rejected_def example_auth_def)
  have n: "''forged.alice'' \<noteq> []"
    by simp
  have st: "HTTPBearer_status example_auth = 401"
    by (simp add: example_auth_def)
  show ?thesis
    using r unauthorized_before_storage
      [of "''forged.alice''" example_auth example_db full_body 1 None]
    by (simp del: handle.simps add: st)
qed

text \<open>
  Claim C5 as stated fails for a request without a token under a FastAPI whose
  \<open>HTTPBearer\<close> raises 403: the answer is 403 ``Not authenticated'', not Unauthorized.
\<close>

theorem missing_token_forbidden_counterexample:
  "handle (example_auth\<lparr>HTTPBearer_status := 403\<rparr>) example_db (ListMovies None) =
     (Inl (HTTPException 403 ''Not authenticated''), example_db) \<and>
   handle (example_auth\<lparr>HTTPBearer_status := 403\<rparr>) example_db (GetMovie None 1) =
     (Inl (HTTPException 403 ''Not authenticated''), example_db) \<and>
   HTTPException 403 ''Not authenticated'' \<noteq> Unauthorized"
  by (simp add: protected_def security_def Unauthorized_def)

lemma select_user_None: "select_user us name = None \<longleftrightarrow> name \<notin> set (map users_username us)"
  by (auto simp: select_user_def find_None_iff)

text \<open>
  Claim C6. A login with a username that is not registered and a login with a registered
  username and a password that does not verify get the same response: status 401 with the
  detail ``Incorrect username or password''. Neither changes a table.
\<close>

theorem login_failures_identical:
  assumes "username u1 \<notin> set (map users_username (users s1))"
    and "select_user (users s2) (username u2) = Some row"
    and "\<not> verify_password A (password u2) (users_hashed_password row)"
  shows "handle A s1 (Login u1) =
           (Inl (HTTPException 401 ''Incorrect username or password''), get_db s1) \<and>
         handle A s2 (Login u2) =
           (Inl (HTTPException 401 ''Incorrect username or password''), get_db s2) \<and>
         fst (handle A s1 (Login u1)) = fst (handle A s2 (Login u2))"
proof -
  from assms(1) have "select_user (users s1) (username u1) = None"
    by (simp add: select_user_None)
  then have 1: "login A s1 u1 =
                  (Inl (HTTPException 401 ''Incorrect username or password''), get_db s1)"
    by (simp add: login_def)
  from assms(2,3) have 2: "login A s2 u2 =
                  (Inl (HTTPException 401 ''Incorrect username or password''), get_db s2)"
    by (simp add: login_def)
  show ?thesis
    by (simp add: 1 2 respond_def)
qed

theorem login_failures_identical_witness:
  "handle example_auth example_db (Login \<lparr>username = ''carol'', password = ''pw1''\<rparr>) =
     (Inl (HTTPException 401 ''Incorrect username or password''), get_db example_db) \<and>
   handle example_auth example_db (Login \<lparr>username = ''alice'', password = ''guess''\<rparr>) =
     (Inl (HTTPException 401 ''Incorrect username or password''), get_db example_db) \<and>
   (\<exists>t. fst (handle example_auth example_db (Login \<lparr>username = ''alice'', password = ''pw1''\<rparr>)) =
          Inr t)"
proof -
  have a: "username \<lparr>username = ''carol'', password = ''pw1''\<rparr>
             \<notin> set (map users_username (users example_db))"
    by (simp add: example_db_def)
  have b: "select_user (users example_db) (username \<lparr>username = ''alice'', password = ''guess''\<rparr>) =
             Some \<lparr>users_id = 1, users_username = ''alice'', users_hashed_password = ''$2b$pw1''\<rparr>"
    by (simp add: example_db_def select_user_def)
  have c: "\<not> verify_password example_auth (password \<lparr>username = ''alice'', password = ''guess''\<rparr>)
               (users_hashed_password
                 \<lparr>users_id = 1, users_username = ''alice'', users_hashed_password = ''$2b$pw1''\<rparr>)"
    by (simp add: example_auth_def)
  have d: "\<exists>t. fst (handle example_auth example_db (Login \<lparr>username = ''alice'', password = ''pw1''\<rparr>)) =
          Inr t"
    by (simp add: login_def respond_def get_db_def example_db_def select_user_def example_auth_def)
  show ?thesis
    using login_failures_identical [OF a b c] d by simp
qed


lemma fold_max_ge: "(a::int) \<le> fold max xs a \<and> (\<forall>x \<in> set xs. x \<le> fold max xs a)"
proof (induction xs arbitrary: a)
  case Nil
  show ?case by simp
next
  case (Cons y ys)
  from Cons [of "max y a"] show ?case by auto
qed

lemma next_rowid_above: "x \<in> set ids \<Longrightarrow> x < next_rowid seq ids"
  using fold_max_ge [of seq ids] by (auto simp: next_rowid_def)

lemma next_rowid_above_seq: "seq < next_rowid seq ids"
  using fold_max_ge [of seq ids] by (simp add: next_rowid_def)

lemma next_rowid_fresh: "next_rowid seq (map f xs) \<notin> f ` set xs"
  using next_rowid_above [of _ "map f xs" seq] by fastforce

lemma find_append_fresh:
  "(\<And>x. x \<in> set xs \<Longrightarrow> \<not> P x) \<Longrightarrow> P y \<Longrightarrow> find P (xs @ [y]) = Some y"
  by (induction xs) auto

text \<open>\<open>create_movie\<close>, case by case.\<close>

lemma create_movie_overflow:
  "\<not> bindable_year (mc_year movie) \<Longrightarrow> create_movie s movie u = (Inl OverflowError, get_db s)"
  by (simp add: create_movie_def insert_movie_def)

lemma create_movie_full:
  "bindable_year (mc_year movie) \<Longrightarrow> \<not> has_room s \<Longrightarrow>
   create_movie s movie u = (Inl (OperationalError ''database or disk is full''), get_db s)"
  by (simp add: create_movie_def insert_movie_def has_room_def)

lemma create_movie_stored:
  "bindable_year (mc_year movie) \<Longrightarrow> has_room s \<Longrightarrow>
   create_movie s movie u =
     (Inr \<lparr>movie_id = next_rowid (movies_seq s) (map movie_id (movies s)),
           title = mc_title movie, director = mc_director movie, year = mc_year movie,
           genre = mc_genre movie, rating = mc_rating movie,
           description = mc_description movie, user_id = User_id u\<rparr>,
      (get_db s)\<lparr>movies := movies s @
                    [\<lparr>movie_id = next_rowid (movies_seq s) (map movie_id (movies s)),
                      title = mc_title movie, director = mc_director movie,
                      year = mc_year movie, genre = mc_genre movie,
                      rating = sqlite_real (mc_rating movie),
                      description = mc_description movie, user_id = User_id u\<rparr>],
                  movies_seq := next_rowid (movies_seq s) (map movie_id (movies s))\<rparr>)"
  by (simp add: create_movie_def insert_movie_def has_room_def Let_def)

lemma create_movie_Inr:
  assumes "create_movie s movie u = (Inr m, s')"
  shows "bindable_year (mc_year movie) \<and> has_room s"
proof (rule ccontr)
  assume "\<not> (bindable_year (mc_year movie) \<and> has_room s)"
  then consider "\<not> bindable_year (mc_year movie)" | "bindable_year (mc_year movie)" "\<not> has_room s"
    by blast
  then show False
    using assms by cases (simp_all add: create_movie_overflow create_movie_full)
qed

lemma get_after_create:
  assumes "create_movie s movie u = (Inr m, s')"
  shows "get_movie s' (movie_id m) u = (Inr (m\<lparr>rating := sqlite_real (rating m)\<rparr>), get_db s')"
proof -
  let ?i = "next_rowid (movies_seq s) (map movie_id (movies s))"
  from create_movie_Inr [OF assms] have ok: "bindable_year (mc_year movie)" "has_room s"
    by simp_all
  from assms have m: "movie_id m = ?i" "user_id m = User_id u"
    and s': "movies s' = movies s @ [m\<lparr>rating := sqlite_real (rating m)\<rparr>]"
    by (auto simp: create_movie_stored [OF ok])
  have i: "int64 ?i"
    using ok(2) by (simp add: has_room_def)
  have "movie_id x \<noteq> ?i" if "x \<in> set (movies s)" for x
    using next_rowid_above [of "movie_id x" "map movie_id (movies s)" "movies_seq s"] that
    by auto
  then have "find (\<lambda>r. movie_id r = ?i \<and> user_id r = User_id u)
               (movies s @ [m\<lparr>rating := sqlite_real (rating m)\<rparr>]) =
             Some (m\<lparr>rating := sqlite_real (rating m)\<rparr>)"
    by (intro find_append_fresh) (auto simp: m)
  then show ?thesis
    using i by (simp add: get_movie_def select_movie_owned_def s' m)
qed

lemma sqlite_real_id: "v \<noteq> NaN \<Longrightarrow> v \<noteq> NegZero \<Longrightarrow> sqlite_real (Some v) = Some v"
  by (cases v) simp_all

text \<open>
  Claim C7, as amended. Whenever \<open>create_movie\<close> returns a record, its id is one no stored
  row had, and \<open>get_movie\<close> by the same user on that id returns the record with the rating
  as the column holds it. A body that supplies all six members, with a year that fits in
  64 bits and a rating that is neither NaN nor negative zero, validates; in a table that
  can still hand out an id \<open>create_movie\<close> returns a record for it, and \<open>get_movie\<close> on the
  returned id returns that very record: the six members as submitted, the assigned id and
  the caller's user id as owner.
\<close>

theorem create_get_roundtrip:
  "(create_movie s movie u = (Inr m, s') \<longrightarrow>
      get_movie s' (movie_id m) u = (Inr (m\<lparr>rating := sqlite_real (rating m)\<rparr>), get_db s') \<and>
      movie_id m \<notin> movie_id ` set (movies s)) \<and>
   (int64 y \<and> has_room s \<and> r \<noteq> NaN \<and> r \<noteq> NegZero \<longrightarrow>
      (\<exists>movie m s'.
         validate_MovieCreate \<lparr>b_title = Value t, b_director = Value d, b_year = Value y,
                               b_genre = Value g, b_rating = Value r, b_description = Value ds\<rparr> =
           Inr movie \<and>
         create_movie s movie u = (Inr m, s') \<and>
         get_movie s' (movie_id m) u = (Inr m, get_db s') \<and>
         m = \<lparr>movie_id = next_rowid (movies_seq s) (map movie_id (movies s)), title = t,
              director = Some d, year = Some y, genre = Some g, rating = Some r,
              description = Some ds, user_id = User_id u\<rparr> \<and>
         movie_id m \<notin> movie_id ` set (movies s)))"
proof -
  have first: "get_movie s' (movie_id m) u = (Inr (m\<lparr>rating := sqlite_real (rating m)\<rparr>), get_db s') \<and>
      movie_id m \<notin> movie_id ` set (movies s)"
    if c: "create_movie s movie u = (Inr m, s')"
  proof -
    from create_movie_Inr [OF c] have ok: "bindable_year (mc_year movie)" "has_room s"
      by simp_all
    from c have "movie_id m = next_rowid (movies_seq s) (map movie_id (movies s))"
      by (auto simp: create_movie_stored [OF ok])
    then have "movie_id m \<notin> movie_id ` set (movies s)"
      using next_rowid_fresh [of "movies_seq s" movie_id "movies s"] by simp
    with get_after_create [OF c] show ?thesis by simp
  qed
  have second: "\<exists>movie m s'.
         validate_MovieCreate \<lparr>b_title = Value t, b_director = Value d, b_year = Value y,
                               b_genre = Value g, b_rating = Value r, b_description = Value ds\<rparr> =
           Inr movie \<and>
         create_movie s movie u = (Inr m, s') \<and>
         get_movie s' (movie_id m) u = (Inr m, get_db s') \<and>
         m = \<lparr>movie_id = next_rowid (movies_seq s) (map movie_id (movies s)), title = t,
              director = Some d, year = Some y, genre = Some g, rating = Some r,
              description = Some ds, user_id = User_id u\<rparr> \<and>
         movie_id m \<notin> movie_id ` set (movies s)"
    if h: "int64 y" "has_room s" "r \<noteq> NaN" "r \<noteq> NegZero"
  proof -
    let ?movie = "\<lparr>mc_title = t, mc_director = Some d, mc_year = Some y, mc_genre = Some g,
                   mc_rating = Some r, mc_description = Some ds\<rparr>"
    let ?i = "next_rowid (movies_seq s) (map movie_id (movies s))"
    let ?m = "\<lparr>movie_id = ?i, title = t, director = Some d, year = Some y, genre = Some g,
               rating = Some r, description = Some ds, user_id = User_id u\<rparr>"
    have v: "validate_MovieCreate \<lparr>b_title = Value t, b_director = Value d, b_year = Value y,
               b_genre = Value g, b_rating = Value r, b_description = Value ds\<rparr> = Inr ?movie"
      by (simp add: validate_MovieCreate_def optional_def)
    have b: "bindable_year (mc_year ?movie)"
      using h(1) by (simp add: bindable_year_def)
    obtain s' where c: "create_movie s ?movie u = (Inr ?m, s')"
      by (simp add: create_movie_stored [OF b h(2)])
    have "sqlite_real (rating ?m) = rating ?m"
      using h(3,4) by (simp add: sqlite_real_id)
    then have g: "get_movie s' (movie_id ?m) u = (Inr ?m, get_db s')"
      using get_after_create [OF c] by simp
    have f: "movie_id ?m \<notin> movie_id ` set (movies s)"
      using next_rowid_fresh [of "movies_seq s" movie_id "movies s"] by simp
    show ?thesis
      using v c g f by blast
  qed
  from first second show ?thesis by blast
qed


lemma example_next: "next_rowid (movies_seq example_db) (map movie_id (movies example_db)) = 3"
  by (simp add: next_rowid_def example_db_def dune_def heat_def)

lemma example_room: "has_room example_db"
  by (simp add: has_room_def example_next int64_def)

lemma full_db_no_room: "\<not> has_room full_db"
  by (simp add: has_room_def full_db_def next_rowid_def example_db_def dune_def heat_def
      int64_def)

theorem create_get_roundtrip_witness:
  "validate_MovieCreate full_body = Inr alien \<and>
   int64 1979 \<and> has_room example_db \<and>
   fst (create_movie example_db alien alice) =
     Inr \<lparr>movie_id = 3, title = ''Alien'', director = Some ''Scott'', year = Some 1979,
          genre = Some ''horror'', rating = Some (Finite 8.5), description = Some ''In space'',
          user_id = 1\<rparr> \<and>
   fst (get_movie (snd (create_movie example_db alien alice)) 3 alice) =
     Inr \<lparr>movie_id = 3, title = ''Alien'', director = Some ''Scott'', year = Some 1979,
          genre = Some ''horror'', rating = Some (Finite 8.5), description = Some ''In space'',
          user_id = 1\<rparr>"
proof -
  have i: "int64 1979" by (simp add: int64_def)
  have f: "Finite 8.5 \<noteq> NaN" "Finite 8.5 \<noteq> NegZero" by simp_all
  have v: "validate_MovieCreate full_body = Inr alien"
    by (simp add: validate_MovieCreate_def full_body_def alien_def optional_def)
  have b: "full_body = \<lparr>b_title = Value ''Alien'', b_director = Value ''Scott'',
             b_year = Value 1979, b_genre = Value ''horror'', b_rating = Value (Finite 8.5),
             b_description = Value ''In space''\<rparr>"
    by (simp add: full_body_def)
  from create_get_roundtrip [where s = example_db and u = alice and y = 1979
      and r = "Finite 8.5" and t = "''Alien''" and d = "''Scott''" and g = "''horror''"
      and ds = "''In space''"] i example_room f
  obtain movie m s' where
    "validate_MovieCreate full_body = Inr movie"
    "create_movie example_db movie alice = (Inr m, s')"
    "get_movie s' (movie_id m) alice = (Inr m, get_db s')"
    "m = \<lparr>movie_id = 3, title = ''Alien'', director = Some ''Scott'', year = Some 1979,
          genre = Some ''horror'', rating = Some (Finite 8.5), description = Some ''In space'',
          user_id = User_id alice\<rparr>"
    unfolding b [symmetric] example_next by blast
  with v i example_room show ?thesis
    by (simp add: alice_def)
qed

text \<open>
  Claim C7 as stated fails for three requests with all six members supplied. With a NaN
  rating the record \<open>get_movie\<close> returns has the rating \<open>null\<close>, not the one submitted. With
  a year of \<open>2^63\<close> the \<open>INSERT\<close> raises \<open>OverflowError\<close> and nothing is stored. On a table
  that has handed out its last id the \<open>INSERT\<close> fails with ``database or disk is full''.
\<close>

theorem roundtrip_inexact_counterexample:
  "fst (create_movie example_db alien_nan alice) =
     Inr \<lparr>movie_id = 3, title = ''Alien'', director = Some ''Scott'', year = Some 1979,
          genre = Some ''horror'', rating = Some NaN, description = Some ''In space'',
          user_id = 1\<rparr> \<and>
   fst (get_movie (snd (create_movie example_db alien_nan alice)) 3 alice) =
     Inr \<lparr>movie_id = 3, title = ''Alien'', director = Some ''Scott'', year = Some 1979,
          genre = Some ''horror'', rating = None, description = Some ''In space'',
          user_id = 1\<rparr> \<and>
   create_movie example_db alien_late alice = (Inl OverflowError, get_db example_db) \<and>
   create_movie full_db alien alice =
     (Inl (OperationalError ''database or disk is full''), get_db full_db)"
proof -
  have b: "bindable_year (mc_year alien_nan)" "bindable_year (mc_year alien)"
    "\<not> bindable_year (mc_year alien_late)"
    by (simp_all add: bindable_year_def alien_nan_def alien_late_def alien_def int64_def)
  have cf: "fst (create_movie example_db alien_nan alice) =
     Inr \<lparr>movie_id = 3, title = ''Alien'', director = Some ''Scott'', year = Some 1979,
          genre = Some ''horror'', rating = Some NaN, description = Some ''In space'',
          user_id = 1\<rparr>"
    unfolding create_movie_stored [OF b(1) example_room] example_next
    by (simp add: alien_nan_def alien_def alice_def)
  then have c: "create_movie example_db alien_nan alice =
     (Inr \<lparr>movie_id = 3, title = ''Alien'', director = Some ''Scott'', year = Some 1979,
          genre = Some ''horror'', rating = Some NaN, description = Some ''In space'',
          user_id = 1\<rparr>, snd (create_movie example_db alien_nan alice))"
    by (simp add: prod_eq_iff)
  have g: "fst (get_movie (snd (create_movie example_db alien_nan alice)) 3 alice) =
     Inr \<lparr>movie_id = 3, title = ''Alien'', director = Some ''Scott'', year = Some 1979,
          genre = Some ''horror'', rating = None, description = Some ''In space'',
          user_id = 1\<rparr>"
    using get_after_create [OF c] by simp
  show ?thesis
    using cf g create_movie_overflow [OF b(3)] create_movie_full [OF b(2) full_db_no_room]
    by simp
qed

text \<open>
  Claim C3, as amended. For an authenticated caller, a create request whose \<open>title\<close> is
  missing or \<open>null\<close> is rejected with a validation error and stores nothing. A request
  whose \<open>title\<close> is any string, the empty one included, and whose other members are absent
  or \<open>null\<close> is accepted and, in a table that can still hand out an id, stores exactly the
  returned record.
\<close>

theorem create_movie_title_validation:
  assumes "authenticated A s credentials u s1"
  shows "(b_title body = Absent \<or> b_title body = Null \<longrightarrow>
            handle A s (CreateMovie credentials body) = (Inl RequestValidationError, s1) \<and>
            movies s1 = movies s) \<and>
         (\<forall>t. b_title body = Value t \<and> title_only body \<and> has_room s \<longrightarrow>
            (\<exists>m s'. handle A s (CreateMovie credentials body) = (Inr (MovieResponse m), s') \<and>
                    m = \<lparr>movie_id = next_rowid (movies_seq s) (map movie_id (movies s)),
                         title = t, director = None, year = None, genre = None,
                         rating = None, description = None, user_id = User_id u\<rparr> \<and>
                    movies s' = movies s @ [m]))"
proof -
  have same: "movies s1 = movies s"
    using authenticated_tables [OF assms] by simp
  have s1: "s1 = get_db s"
    using assms by (auto simp: authenticated_def get_current_user_def Let_def split: option.splits)
  have rej: "handle A s (CreateMovie credentials body) = (Inl RequestValidationError, s1)"
    if "b_title body = Absent \<or> b_title body = Null"
    using that by (auto simp: protected_authenticated [OF assms] validate_MovieCreate_def)
  have acc: "\<exists>m s'. handle A s (CreateMovie credentials body) = (Inr (MovieResponse m), s') \<and>
                    m = \<lparr>movie_id = next_rowid (movies_seq s) (map movie_id (movies s)),
                         title = t, director = None, year = None, genre = None,
                         rating = None, description = None, user_id = User_id u\<rparr> \<and>
                    movies s' = movies s @ [m]"
    if t: "b_title body = Value t" and o: "title_only body" and r: "has_room s" for t
  proof -
    let ?movie = "\<lparr>mc_title = t, mc_director = None, mc_year = None, mc_genre = None,
                   mc_rating = None, mc_description = None\<rparr>"
    from o have "validate_MovieCreate body = Inr ?movie"
      using t by (auto simp: validate_MovieCreate_def title_only_def absent_or_null_def
          optional_def)
    then have h: "handle A s (CreateMovie credentials body) =
                    respond MovieResponse (create_movie s1 ?movie u)"
      by (simp add: protected_authenticated [OF assms])
    have b: "bindable_year (mc_year ?movie)"
      by (simp add: bindable_year_def)
    have r1: "has_room s1"
      using r by (simp add: has_room_def s1)
    show ?thesis
      unfolding h create_movie_stored [OF b r1]
      by (simp add: respond_def s1)
  qed
  show ?thesis
    using same rej acc by blast
qed

theorem create_movie_title_validation_witness:
  "authenticated example_auth example_db (Some ''sig.alice'') alice (get_db example_db) \<and>
   title_only (no_body\<lparr>b_title := Value ''Dune''\<rparr>) \<and> has_room example_db \<and>
   handle example_auth example_db (CreateMovie (Some ''sig.alice'') no_body) =
     (Inl RequestValidationError, get_db example_db) \<and>
   handle example_auth example_db (CreateMovie (Some ''sig.alice'') title_null) =
     (Inl RequestValidationError, get_db example_db) \<and>
   fst (handle example_auth example_db
         (CreateMovie (Some ''sig.alice'') (no_body\<lparr>b_title := Value ''Dune''\<rparr>))) =
     Inr (MovieResponse \<lparr>movie_id = 3, title = ''Dune'', director = None, year = None,
                         genre = None, rating = None, description = None, user_id = 1\<rparr>)"
proof -
  have o: "title_only (no_body\<lparr>b_title := Value ''Dune''\<rparr>)"
    by (simp add: title_only_def absent_or_null_def no_body_def)
  have t: "b_title no_body = Absent" "b_title title_null = Null"
    "b_title (no_body\<lparr>b_title := Value ''Dune''\<rparr>) = Value ''Dune''"
    by (simp_all add: no_body_def title_null_def)
  show ?thesis
    using create_movie_title_validation [OF alice_authenticated, of no_body]
      create_movie_title_validation [OF alice_authenticated, of title_null]
      create_movie_title_validation [OF alice_authenticated,
        of "no_body\<lparr>b_title := Value ''Dune''\<rparr>"]
      alice_authenticated o example_room t
    by (auto simp del: handle.simps simp: example_next alice_def)
qed

text \<open>
  Claim C3 as stated fails twice. \<open>title: str\<close> admits the empty string: a create request
  with the title \<open>""\<close> is answered with the created record, which is stored. And on a table
  that has handed out its last id a request with nothing but a title is not accepted: the
  \<open>INSERT\<close> fails with ``database or disk is full''.
\<close>

theorem empty_title_accepted_counterexample:
  "b_title empty_title = Value [] \<and>
   fst (handle example_auth example_db (CreateMovie (Some ''sig.alice'') empty_title)) =
     Inr (MovieResponse \<lparr>movie_id = 3, title = [], director = None, year = None,
                         genre = None, rating = None, description = None, user_id = 1\<rparr>) \<and>
   movies (snd (handle example_auth example_db (CreateMovie (Some ''sig.alice'') empty_title))) =
     [dune, heat,
      \<lparr>movie_id = 3, title = [], director = None, year = None, genre = None, rating = None,
       description = None, user_id = 1\<rparr>] \<and>
   title_only empty_title \<and>
   handle example_auth full_db (CreateMovie (Some ''sig.alice'') empty_title) =
     (Inl (OperationalError ''database or disk is full''), get_db (get_db full_db))"
proof -
  let ?movie = "\<lparr>mc_title = [], mc_director = None, mc_year = None, mc_genre = None,
                 mc_rating = None, mc_description = None\<rparr>"
  have v: "validate_MovieCreate empty_title = Inr ?movie"
    by (simp add: validate_MovieCreate_def empty_title_def no_body_def optional_def)
  have b: "bindable_year (mc_year ?movie)"
    by (simp add: bindable_year_def)
  have r: "has_room (get_db example_db)" "\<not> has_room (get_db full_db)"
    using example_room full_db_no_room by (simp_all add: has_room_def)
  have h: "handle example_auth example_db (CreateMovie (Some ''sig.alice'') empty_title) =
             respond MovieResponse (create_movie (get_db example_db) ?movie alice)"
    by (simp add: protected_authenticated [OF alice_authenticated] v)
  have a: "authenticated example_auth full_db (Some ''sig.alice'') alice (get_db full_db)"
    by (simp add: authenticated_def get_current_user_def example_auth_def example_db_def
        full_db_def select_user_def get_db_def alice_def)
  have hf: "handle example_auth full_db (CreateMovie (Some ''sig.alice'') empty_title) =
             respond MovieResponse (create_movie (get_db full_db) ?movie alice)"
    by (simp add: protected_authenticated [OF a] v)
  have o: "title_only empty_title" "b_title empty_title = Value []"
    by (simp_all add: title_only_def absent_or_null_def empty_title_def no_body_def)
  have m: "movies example_db = [dune, heat]"
    by (simp add: example_db_def)
  show ?thesis
    unfolding h hf create_movie_stored [OF b r(1)] create_movie_full [OF b r(2)]
      get_db_tables example_next
    using o m by (simp add: respond_def alice_def)
qed


lemma evolves_refl: "wf_db s \<Longrightarrow> evolves s s"
  by (auto simp: evolves_def)

lemma evolves_trans: "evolves s s' \<Longrightarrow> evolves s' s'' \<Longrightarrow> evolves s s''"
  unfolding evolves_def by (fastforce intro: order_trans)

lemma evolves_get_db: "wf_db s \<Longrightarrow> evolves s (get_db s)"
  by (auto simp: evolves_def)

lemma evolves_from_get_db: "evolves (get_db s) s' \<Longrightarrow> evolves s s'"
  by (simp add: evolves_def)

lemma update_rows_keys:
  "update_rows as mid uid ms = Inr ms' \<Longrightarrow>
   map (\<lambda>m. (movie_id m, user_id m)) ms' = map (\<lambda>m. (movie_id m, user_id m)) ms"
proof (induction ms arbitrary: ms')
  case Nil
  then show ?case by simp
next
  case (Cons m ms)
  have keep: "movie_id r' = movie_id r \<and> user_id r' = user_id r" if "assign_all as r = Inr r'" for r r'
    using that
  proof (induction as arbitrary: r)
    case Nil
    then show ?case by simp
  next
    case (Cons a as)
    from Cons.prems obtain r1 where a: "assign a r = Inr r1" and rest: "assign_all as r1 = Inr r'"
      by (auto split: sum.splits)
    from a have "movie_id r1 = movie_id r \<and> user_id r1 = user_id r"
      by (cases "(a, r)" rule: assign.cases) auto
    with Cons.IH [OF rest] show ?case by simp
  qed
  from Cons.prems Cons.IH show ?case
    by (auto split: if_splits sum.splits dest: keep)
qed

lemma evolves_same_keys:
  assumes "wf_db s"
    and "map (\<lambda>m. (movie_id m, user_id m)) ms' = map (\<lambda>m. (movie_id m, user_id m)) (movies s)"
  shows "evolves s (s\<lparr>movies := ms'\<rparr>)"
proof -
  from assms(2) have "map fst (map (\<lambda>m. (movie_id m, user_id m)) ms') =
                      map fst (map (\<lambda>m. (movie_id m, user_id m)) (movies s))"
    by simp
  then have ids: "map movie_id ms' = map movie_id (movies s)"
    by (simp add: comp_def)
  then have idset: "movie_id ` set ms' = movie_id ` set (movies s)"
    by (metis set_map)
  have pairs: "(\<lambda>m. (movie_id m, user_id m)) ` set ms' = (\<lambda>m. (movie_id m, user_id m)) ` set (movies s)"
    using assms(2) by (metis set_map)
  have old: "\<exists>m \<in> set (movies s). movie_id m = movie_id m' \<and> user_id m = user_id m'"
    if "m' \<in> set ms'" for m'
  proof -
    from that have "(movie_id m', user_id m') \<in> (\<lambda>m. (movie_id m, user_id m)) ` set (movies s)"
      using pairs by blast
    then show ?thesis by auto
  qed
  have bound: "movie_id m' \<le> movies_seq s \<and> int64 (movie_id m')" if "m' \<in> set ms'" for m'
  proof -
    from old [OF that] obtain m where "m \<in> set (movies s)" "movie_id m = movie_id m'"
      by blast
    with assms(1) show ?thesis
      by (auto simp: wf_db_def)
  qed
  have "wf_db (s\<lparr>movies := ms'\<rparr>)"
    using assms(1) ids bound by (simp add: wf_db_def)
  with old show ?thesis
    by (simp add: evolves_def)
qed

lemma evolves_insert_user:
  assumes "wf_db s" and "insert_user s name hashed = Inr s'"
  shows "evolves s s'"
proof -
  let ?i = "next_rowid (users_seq s) (map users_id (users s))"
  from assms(2) have fresh: "name \<notin> set (map users_username (users s))"
    and s': "s' = s\<lparr>users := users s @ [\<lparr>users_id = ?i, users_username = name,
                                          users_hashed_password = hashed\<rparr>],
                    users_seq := ?i\<rparr>"
    by (auto simp: insert_user_def Let_def split: if_splits)
  have "?i \<notin> users_id ` set (users s)"
    by (rule next_rowid_fresh)
  with assms(1) fresh show ?thesis
    by (auto simp: s' evolves_def wf_db_def)
qed

lemma register_taken:
  "select_user (users s) (username user) = Some row \<Longrightarrow>
   register A s user = (Inl Conflict, get_db s)"
  by (simp add: register_def Conflict_def)

lemma register_fault:
  "select_user (users s) (username user) = None \<Longrightarrow>
   insert_user (get_db s) (username user) (get_password_hash A (password user)) = Inl e \<Longrightarrow>
   register A s user = (Inl e, get_db s)"
  by (simp add: register_def)

lemma register_fresh:
  "select_user (users s) (username user) = None \<Longrightarrow>
   insert_user (get_db s) (username user) (get_password_hash A (password user)) = Inr s2 \<Longrightarrow>
   register A s user = (Inr (mint A (username user)), s2)"
  by (simp add: register_def)

lemma register_state:
  "snd (register A s user) = get_db s \<or>
   insert_user (get_db s) (username user) (get_password_hash A (password user)) =
     Inr (snd (register A s user))"
proof (cases "select_user (users s) (username user)")
  case None
  then show ?thesis
    by (cases "insert_user (get_db s) (username user) (get_password_hash A (password user))")
       (simp_all add: register_fault register_fresh)
next
  case (Some row)
  then show ?thesis by (simp add: register_taken)
qed

lemma evolves_register:
  assumes "wf_db s"
  shows "evolves s (snd (register A s user))"
proof -
  have base: "evolves s (get_db s)"
    using assms by (rule evolves_get_db)
  have "evolves s s2"
    if "insert_user (get_db s) (username user) (get_password_hash A (password user)) = Inr s2"
    for s2
  proof -
    have "wf_db (get_db s)" using assms by simp
    then have "evolves (get_db s) s2"
      using that by (rule evolves_insert_user)
    then show ?thesis
      by (rule evolves_from_get_db)
  qed
  with base register_state [of A s user] show ?thesis
    by metis
qed

lemma evolves_login: "wf_db s \<Longrightarrow> evolves s (snd (login A s user))"
  by (cases "select_user (users s) (username user)")
     (simp_all add: login_def Let_def evolves_get_db)

lemma evolves_get_movies: "wf_db s \<Longrightarrow> evolves s (snd (get_movies s u))"
  by (simp add: get_movies_def evolves_get_db)

lemma get_movie_state: "snd (get_movie s mid u) = get_db s"
  by (cases "select_movie_owned (movies s) mid (User_id u)")
     (simp_all add: get_movie_def Let_def)

lemma evolves_get_movie: "wf_db s \<Longrightarrow> evolves s (snd (get_movie s mid u))"
  by (simp add: get_movie_state evolves_get_db)

lemma evolves_create_movie:
  assumes "wf_db s"
  shows "evolves s (snd (create_movie s movie u))"
proof -
  consider "\<not> bindable_year (mc_year movie)" | "bindable_year (mc_year movie)" "\<not> has_room s"
    | "bindable_year (mc_year movie)" "has_room s"
    by blast
  then show ?thesis
  proof cases
    case 1
    with assms show ?thesis by (simp add: create_movie_overflow evolves_get_db)
  next
    case 2
    with assms show ?thesis by (simp add: create_movie_full evolves_get_db)
  next
    case 3
    let ?i = "next_rowid (movies_seq s) (map movie_id (movies s))"
    have "?i \<notin> movie_id ` set (movies s)"
      by (rule next_rowid_fresh)
    moreover have "movies_seq s < ?i"
      by (rule next_rowid_above_seq)
    moreover have "movie_id m < ?i" if "m \<in> set (movies s)" for m
      using that by (intro next_rowid_above) simp
    moreover have "int64 ?i"
      using 3(2) by (simp add: has_room_def)
    ultimately show ?thesis
      using assms
      by (auto simp: create_movie_stored [OF 3] evolves_def wf_db_def)
  qed
qed

lemma evolves_update_movie:
  assumes "wf_db s"
  shows "evolves s (snd (update_movie s mid upd u))"
proof -
  have "evolves s ((get_db s)\<lparr>movies := ms'\<rparr>)"
    if "update_rows (model_dump_exclude_unset upd) mid (User_id u) (movies s) = Inr ms'"
    for ms'
  proof -
    have "wf_db (get_db s)" using assms by simp
    moreover have "map (\<lambda>m. (movie_id m, user_id m)) ms' =
                   map (\<lambda>m. (movie_id m, user_id m)) (movies (get_db s))"
      using update_rows_keys [OF that] by simp
    ultimately have "evolves (get_db s) ((get_db s)\<lparr>movies := ms'\<rparr>)"
      by (rule evolves_same_keys)
    then show ?thesis
      by (rule evolves_from_get_db)
  qed
  moreover have "evolves s (get_db s)"
    using assms by (rule evolves_get_db)
  ultimately show ?thesis
    using update_movie_state [of s mid upd u] by metis
qed

lemma delete_movie_state:
  "snd (delete_movie s mid u) = get_db s \<or>
   snd (delete_movie s mid u) =
     (get_db s)\<lparr>movies := filter (\<lambda>r. \<not> (movie_id r = mid \<and> user_id r = User_id u)) (movies s)\<rparr>"
proof (cases "int64 mid")
  case False
  then show ?thesis by (simp add: delete_movie_overflow)
next
  case True
  then show ?thesis
    by (cases "select_movie_owned (movies s) mid (User_id u)")
       (simp_all add: delete_movie_None delete_movie_Some)
qed

lemma evolves_delete_movie:
  assumes "wf_db s"
  shows "evolves s (snd (delete_movie s mid u))"
proof -
  have "evolves s ((get_db s)\<lparr>movies := filter P (movies s)\<rparr>)" for P
    using assms by (auto simp: evolves_def wf_db_def distinct_map_filter)
  moreover have "evolves s (get_db s)"
    using assms by (rule evolves_get_db)
  ultimately show ?thesis
    using delete_movie_state [of s mid u] by metis
qed

lemma protected_state:
  obtains e s1 where "protected A s credentials h = (Inl e, s1)" "s1 = s \<or> s1 = get_db s"
  | u s1 where "protected A s credentials h = h s1 u" "s1 = s \<or> s1 = get_db s"
proof (cases "security A credentials")
  case (Inl e)
  then have "protected A s credentials h = (Inl e, s)"
    by (simp add: protected_def)
  then show ?thesis using that(1) by blast
next
  case (Inr token)
  show ?thesis
  proof (cases "get_current_user A s token")
    case (Pair r s1)
    then have s1: "s1 = s \<or> s1 = get_db s"
      by (rule get_current_user_state)
    show ?thesis
    proof (cases r)
      case (Inl e)
      with Pair Inr have "protected A s credentials h = (Inl e, s1)"
        by (simp add: protected_def)
      with s1 show ?thesis using that(1) by blast
    next
      case r: (Inr user)
      with Pair Inr have "protected A s credentials h = h s1 user"
        by (simp add: protected_def)
      with s1 show ?thesis using that(2) by blast
    qed
  qed
qed

lemma evolves_protected:
  assumes "wf_db s"
    and "\<And>s1 u. wf_db s1 \<Longrightarrow> evolves s1 (snd (h s1 u))"
  shows "evolves s (snd (protected A s credentials h))"
proof (rule protected_state [of A s credentials h])
  fix e s1
  assume "protected A s credentials h = (Inl e, s1)" "s1 = s \<or> s1 = get_db s"
  with assms(1) show ?thesis
    by (auto simp: evolves_refl evolves_get_db)
next
  fix u s1
  assume p: "protected A s credentials h = h s1 u" and s1: "s1 = s \<or> s1 = get_db s"
  from s1 assms(1) have e: "evolves s s1" "wf_db s1"
    by (auto simp: evolves_refl evolves_get_db)
  with assms(2) [OF e(2), of u] p show ?thesis
    by (auto intro: evolves_trans)
qed

lemma snd_respond [simp]: "snd (respond f r) = snd r"
  by (auto simp: respond_def split: prod.splits sum.splits)

lemma evolves_handle:
  assumes "wf_db s"
  shows "evolves s (snd (handle A s r))"
proof (cases r)
  case (Register user)
  with assms show ?thesis by (simp add: evolves_register)
next
  case (Login user)
  with assms show ?thesis by (simp add: evolves_login)
next
  case (ListMovies token)
  show ?thesis
    unfolding ListMovies handle.simps
    by (rule evolves_protected [OF assms]) (simp add: evolves_get_movies)
next
  case (CreateMovie token body)
  show ?thesis
    unfolding CreateMovie handle.simps
    by (rule evolves_protected [OF assms])
       (simp add: evolves_refl evolves_create_movie split: sum.splits)
next
  case (GetMovie token mid)
  show ?thesis
    unfolding GetMovie handle.simps
    by (rule evolves_protected [OF assms]) (simp add: evolves_get_movie)
next
  case (UpdateMovie token mid body)
  show ?thesis
    unfolding UpdateMovie handle.simps
    by (rule evolves_protected [OF assms])
       (simp add: validate_MovieUpdate_def evolves_update_movie)
next
  case (DeleteMovie token mid)
  show ?thesis
    unfolding DeleteMovie handle.simps
    by (rule evolves_protected [OF assms]) (simp add: evolves_delete_movie)
qed

lemma evolves_run: "wf_db s \<Longrightarrow> evolves s (run s reqs)"
proof (induction reqs arbitrary: s)
  case Nil
  then show ?case by (simp add: evolves_refl)
next
  case (Cons ar reqs)
  obtain A r where ar: "ar = (A, r)" by (cases ar)
  from Cons.prems have 1: "evolves s (snd (handle A s r))"
    by (rule evolves_handle)
  then have "wf_db (snd (handle A s r))"
    by (simp add: evolves_def)
  then have "evolves (snd (handle A s r)) (run (snd (handle A s r)) reqs)"
    by (rule Cons.IH)
  with 1 show ?case
    by (auto simp: ar intro: evolves_trans)
qed

lemma wf_init_db: "wf_db (init_db None)"
  by (simp add: init_db_def wf_db_def int64_def)


lemma owner_same_keys:
  "map (\<lambda>m. (movie_id m, user_id m)) ms' = map (\<lambda>m. (movie_id m, user_id m)) ms \<Longrightarrow>
   map_option user_id (find (\<lambda>m. movie_id m = i) ms') =
   map_option user_id (find (\<lambda>m. movie_id m = i) ms)"
proof (induction ms arbitrary: ms')
  case Nil
  then show ?case by simp
next
  case (Cons m ms)
  then obtain m' rest where ms': "ms' = m' # rest" by (cases ms') auto
  with Cons.prems Cons.IH [of rest] show ?case by auto
qed

lemma owner_of_update: "owner_of (snd (update_movie s mid upd u)) i = owner_of s i"
proof -
  have "owner_of ((get_db s)\<lparr>movies := ms'\<rparr>) i = owner_of s i"
    if "update_rows (model_dump_exclude_unset upd) mid (User_id u) (movies s) = Inr ms'" for ms'
    using owner_same_keys [OF update_rows_keys [OF that], of i]
    by (simp add: owner_of_def select_movie_by_id_def)
  moreover have "owner_of (get_db s) i = owner_of s i"
    by (simp add: owner_of_def)
  ultimately show ?thesis
    using update_movie_state [of s mid upd u] by metis
qed

lemma owner_of_created:
  assumes "create_movie s movie u = (Inr m, s')"
  shows "user_id m = User_id u \<and> owner_of s' (movie_id m) = Some (User_id u) \<and>
         owner_of s (movie_id m) = None"
proof -
  let ?i = "next_rowid (movies_seq s) (map movie_id (movies s))"
  from create_movie_Inr [OF assms] have ok: "bindable_year (mc_year movie)" "has_room s"
    by simp_all
  from assms have m: "movie_id m = ?i" "user_id m = User_id u"
    and s': "movies s' = movies s @ [m\<lparr>rating := sqlite_real (rating m)\<rparr>]"
    by (auto simp: create_movie_stored [OF ok])
  have fresh: "movie_id x \<noteq> ?i" if "x \<in> set (movies s)" for x
    using next_rowid_above [of "movie_id x" "map movie_id (movies s)" "movies_seq s"] that
    by auto
  then have "find (\<lambda>r. movie_id r = ?i) (movies s @ [m\<lparr>rating := sqlite_real (rating m)\<rparr>]) =
               Some (m\<lparr>rating := sqlite_real (rating m)\<rparr>)"
    by (intro find_append_fresh) (auto simp: m)
  moreover from fresh have "find (\<lambda>r. movie_id r = ?i) (movies s) = None"
    by (auto simp: find_None_iff)
  ultimately show ?thesis
    by (simp add: owner_of_def select_movie_by_id_def s' m)
qed

text \<open>
  Claim C8. Whatever requests are served on a well-formed database, a movie row found
  afterwards under the id of a row that was there before has that row's owner. A created
  movie gets a fresh id and the authenticated caller's id as owner. \<open>update_movie\<close>, for
  every request and every caller, changes the owner of no id: no \<open>assignment\<close> writes
  \<open>user_id\<close>. Every database reachable from the initial one is well-formed.
\<close>

theorem owner_immutable:
  "(wf_db s \<and> m \<in> set (movies s) \<and> m' \<in> set (movies (run s reqs)) \<and>
      movie_id m' = movie_id m \<longrightarrow> user_id m' = user_id m) \<and>
   (get_current_user A s token = (Inr u, s1) \<and>
      handle A s (CreateMovie (Some token) body) = (Inr (MovieResponse m0), s') \<longrightarrow>
      user_id m0 = User_id u \<and> owner_of s' (movie_id m0) = Some (User_id u) \<and>
      owner_of s (movie_id m0) = None) \<and>
   owner_of (snd (update_movie s mid upd v)) i = owner_of s i \<and>
   wf_db (run (init_db None) history)"
proof -
  have kept: "user_id m' = user_id m"
    if "wf_db s" "m \<in> set (movies s)" "m' \<in> set (movies (run s reqs))" "movie_id m' = movie_id m"
  proof -
    from that(1) have e: "evolves s (run s reqs)" by (rule evolves_run)
    from that(1,2) have "movie_id m \<le> movies_seq s" by (simp add: wf_db_def)
    with e that(3,4) obtain m0 where m0: "m0 \<in> set (movies s)" "movie_id m0 = movie_id m'"
      "user_id m0 = user_id m'"
      by (auto simp: evolves_def)
    from that(1) have "inj_on movie_id (set (movies s))"
      by (simp add: wf_db_def distinct_map)
    with m0(1,2) that(2,4) have "m0 = m" by (auto dest: inj_onD)
    with m0(3) show ?thesis by simp
  qed
  have created: "user_id m0 = User_id u \<and> owner_of s' (movie_id m0) = Some (User_id u) \<and>
      owner_of s (movie_id m0) = None"
    if auth: "get_current_user A s token = (Inr u, s1)"
      and resp: "handle A s (CreateMovie (Some token) body) = (Inr (MovieResponse m0), s')"
  proof -
    have "token \<noteq> []"
      using resp by (auto simp: protected_def security_def)
    with auth have a: "authenticated A s (Some token) u s1"
      by (simp add: authenticated_def)
    from resp obtain movie where "create_movie s1 movie u = (Inr m0, s')"
      unfolding handle.simps protected_authenticated [OF a]
      by (auto simp: respond_def split: sum.splits prod.splits)
    then have "user_id m0 = User_id u \<and> owner_of s' (movie_id m0) = Some (User_id u) \<and>
         owner_of s1 (movie_id m0) = None"
      by (rule owner_of_created)
    moreover have "owner_of s1 (movie_id m0) = owner_of s (movie_id m0)"
      using get_current_user_tables [OF auth] by (simp add: owner_of_def)
    ultimately show ?thesis by simp
  qed
  have "wf_db (run (init_db None) history)"
    using evolves_run [OF wf_init_db, of history] by (simp add: evolves_def)
  with kept created show ?thesis
    by (simp add: owner_of_update)
qed

lemma example_update_run:
  "movies (run example_db [(example_auth, UpdateMovie (Some ''sig.alice'') 1 rating_only)]) =
     [dune\<lparr>rating := Some (Finite 9.5)\<rparr>, heat]"
proof -
  have t: "b_title rating_only \<noteq> Null" "year_fits rating_only"
    by (simp_all add: rating_only_def no_body_def year_fits_def)
  have d: "distinct (map movie_id (movies (get_db example_db)))"
    using wf_example_db by (simp add: wf_db_def)
  have o: "select_movie_owned (movies (get_db example_db)) 1 (User_id alice) = Some dune"
    using alice_owns_dune by simp
  have i: "int64 1" by (simp add: int64_def)
  have "run example_db [(example_auth, UpdateMovie (Some ''sig.alice'') 1 rating_only)] =
          snd (update_movie (get_db example_db) 1 rating_only alice)"
    by (simp add: protected_authenticated [OF alice_authenticated] validate_MovieUpdate_def)
  also have "movies \<dots> =
          map (\<lambda>r. if movie_id r = 1 \<and> user_id r = User_id alice
                    then sparse_update rating_only r else r) (movies example_db)"
    by (simp add: update_movie_found [OF d i o t])
  also have "\<dots> = [dune\<lparr>rating := Some (Finite 9.5)\<rparr>, heat]"
    by (simp add: example_db_def dune_def heat_def alice_def sparse_update_def rating_only_def
        no_body_def overwrite_def overwrite_real_def)
  finally show ?thesis .
qed

lemma example_create:
  "handle example_auth example_db (CreateMovie (Some ''sig.alice'') full_body) =
     (Inr (MovieResponse
        \<lparr>movie_id = 3, title = ''Alien'', director = Some ''Scott'', year = Some 1979,
         genre = Some ''horror'', rating = Some (Finite 8.5), description = Some ''In space'',
         user_id = 1\<rparr>),
      snd (handle example_auth example_db (CreateMovie (Some ''sig.alice'') full_body)))"
proof -
  have v: "validate_MovieCreate full_body = Inr alien"
    by (simp add: validate_MovieCreate_def full_body_def alien_def optional_def)
  have b: "bindable_year (mc_year alien)"
    by (simp add: bindable_year_def alien_def int64_def)
  have r: "has_room (get_db example_db)"
    using example_room by (simp add: has_room_def)
  have h: "handle example_auth example_db (CreateMovie (Some ''sig.alice'') full_body) =
             respond MovieResponse (create_movie (get_db example_db) alien alice)"
    by (simp add: protected_authenticated [OF alice_authenticated] v)
  have "fst (handle example_auth example_db (CreateMovie (Some ''sig.alice'') full_body)) =
     Inr (MovieResponse
        \<lparr>movie_id = 3, title = ''Alien'', director = Some ''Scott'', year = Some 1979,
         genre = Some ''horror'', rating = Some (Finite 8.5), description = Some ''In space'',
         user_id = 1\<rparr>)"
    unfolding h create_movie_stored [OF b r] get_db_tables example_next
    by (simp add: respond_def alien_def alice_def)
  then show ?thesis
    by (simp add: prod_eq_iff)
qed

theorem owner_immutable_witness:
  "wf_db example_db \<and> dune \<in> set (movies example_db) \<and>
   dune\<lparr>rating := Some (Finite 9.5)\<rparr>
     \<in> set (movies (run example_db
                      [(example_auth, UpdateMovie (Some ''sig.alice'') 1 rating_only)])) \<and>
   movie_id (dune\<lparr>rating := Some (Finite 9.5)\<rparr>) = movie_id dune \<and>
   user_id (dune\<lparr>rating := Some (Finite 9.5)\<rparr>) = user_id dune \<and>
   get_current_user example_auth example_db ''sig.alice'' = (Inr alice, get_db example_db) \<and>
   fst (handle example_auth example_db (CreateMovie (Some ''sig.alice'') full_body)) =
     Inr (MovieResponse
        \<lparr>movie_id = 3, title = ''Alien'', director = Some ''Scott'', year = Some 1979,
         genre = Some ''horror'', rating = Some (Finite 8.5), description = Some ''In space'',
         user_id = 1\<rparr>) \<and>
   owner_of (snd (handle example_auth example_db (CreateMovie (Some ''sig.alice'') full_body))) 3 =
     Some 1 \<and>
   owner_of example_db 3 = None \<and>
   owner_of (snd (update_movie example_db 1 rating_only alice)) 1 = Some 1 \<and>
   wf_db (run (init_db None) [(example_auth, Register \<lparr>username = ''alice'', password = ''pw1''\<rparr>)])"
proof -
  have a: "dune \<in> set (movies example_db)"
    by (simp add: example_db_def)
  have b: "dune\<lparr>rating := Some (Finite 9.5)\<rparr>
     \<in> set (movies (run example_db
                      [(example_auth, UpdateMovie (Some ''sig.alice'') 1 rating_only)]))"
    unfolding example_update_run by simp
  have c: "movie_id (dune\<lparr>rating := Some (Finite 9.5)\<rparr>) = movie_id dune"
    by simp
  have d: "owner_of example_db 1 = Some 1"
    by (simp add: owner_of_def select_movie_by_id_def example_db_def dune_def)
  have g: "get_current_user example_auth example_db ''sig.alice'' = (Inr alice, get_db example_db)"
    using alice_authenticated by (simp add: authenticated_def)
  have u: "User_id alice = 1"
    by (simp add: alice_def)
  have f: "fst (handle example_auth example_db (CreateMovie (Some ''sig.alice'') full_body)) =
     Inr (MovieResponse
        \<lparr>movie_id = 3, title = ''Alien'', director = Some ''Scott'', year = Some 1979,
         genre = Some ''horror'', rating = Some (Finite 8.5), description = Some ''In space'',
         user_id = 1\<rparr>)"
    by (rule arg_cong [where f = fst, OF example_create, simplified fst_conv])
  show ?thesis
    using owner_immutable [where s = example_db and m = dune
        and m' = "dune\<lparr>rating := Some (Finite 9.5)\<rparr>"
        and reqs = "[(example_auth, UpdateMovie (Some ''sig.alice'') 1 rating_only)]"
        and A = example_auth and token = "''sig.alice''" and u = alice
        and ?s1.0 = "get_db example_db" and body = full_body
        and ?m0.0 = "\<lparr>movie_id = 3, title = ''Alien'', director = Some ''Scott'', year = Some 1979,
         genre = Some ''horror'', rating = Some (Finite 8.5), description = Some ''In space'',
         user_id = 1\<rparr>"
        and s' = "snd (handle example_auth example_db (CreateMovie (Some ''sig.alice'') full_body))"
        and mid = 1 and upd = rating_only and v = alice and i = 1
        and history = "[(example_auth, Register \<lparr>username = ''alice'', password = ''pw1''\<rparr>)]"]
      wf_example_db a b c d g example_create u f
    by (simp del: run.simps handle.simps)
qed

lemma users_get_current_user:
  "users (snd (get_current_user A s token)) = users s"
  using get_current_user_state [of A s token] by (cases "get_current_user A s token") auto

lemma users_protected:
  assumes "\<And>s1 u. users (snd (h s1 u)) = users s1"
  shows "users (snd (protected A s credentials h)) = users s"
proof (rule protected_state [of A s credentials h])
  fix e s1
  assume "protected A s credentials h = (Inl e, s1)" "s1 = s \<or> s1 = get_db s"
  then show ?thesis by auto
next
  fix u s1
  assume "protected A s credentials h = h s1 u" "s1 = s \<or> s1 = get_db s"
  with assms [of s1 u] show ?thesis by auto
qed

lemma users_update_movie: "users (snd (update_movie s mid upd u)) = users s"
  using update_movie_state [of s mid upd u] by auto

lemma users_delete_movie: "users (snd (delete_movie s mid u)) = users s"
  using delete_movie_state [of s mid u] by auto

lemma users_create_movie: "users (snd (create_movie s movie u)) = users s"
proof -
  consider "\<not> bindable_year (mc_year movie)" | "bindable_year (mc_year movie)" "\<not> has_room s"
    | "bindable_year (mc_year movie)" "has_room s"
    by blast
  then show ?thesis
    by cases (simp_all add: create_movie_overflow create_movie_full create_movie_stored)
qed

lemma users_get_movie: "users (snd (get_movie s mid u)) = users s"
  by (simp add: get_movie_state)

lemma users_get_movies: "users (snd (get_movies s u)) = users s"
  by (simp add: get_movies_def)

lemma users_login: "users (snd (login A s user)) = users s"
  by (cases "select_user (users s) (username user)") (simp_all add: login_def Let_def)

lemma usernames_register:
  "set (map users_username (users s)) \<subseteq> set (map users_username (users (snd (register A s user))))"
proof -
  have "set (map users_username (users s)) \<subseteq> set (map users_username (users s2))"
    if "insert_user (get_db s) name hashed = Inr s2" for name hashed s2
    using that by (auto simp: insert_user_def Let_def split: if_splits)
  then show ?thesis
    using register_state [of A s user] by (metis get_db_tables(2) order_refl)
qed

lemma usernames_handle:
  "set (map users_username (users s)) \<subseteq> set (map users_username (users (snd (handle A s r))))"
proof (cases r)
  case (Register user)
  show ?thesis
    unfolding Register handle.simps snd_respond by (rule usernames_register)
next
  case (Login user)
  show ?thesis
    unfolding Login handle.simps snd_respond users_login by (rule order_refl)
next
  case (ListMovies token)
  have "users (snd (handle A s r)) = users s"
    unfolding ListMovies handle.simps by (rule users_protected) (simp add: users_get_movies)
  then show ?thesis by simp
next
  case (CreateMovie token body)
  have "users (snd (handle A s r)) = users s"
    unfolding CreateMovie handle.simps
    by (rule users_protected) (simp add: users_create_movie split: sum.splits)
  then show ?thesis by simp
next
  case (GetMovie token mid)
  have "users (snd (handle A s r)) = users s"
    unfolding GetMovie handle.simps by (rule users_protected) (simp add: users_get_movie)
  then show ?thesis by simp
next
  case (UpdateMovie token mid body)
  have "users (snd (handle A s r)) = users s"
    unfolding UpdateMovie handle.simps
    by (rule users_protected) (simp add: users_update_movie validate_MovieUpdate_def)
  then show ?thesis by simp
next
  case (DeleteMovie token mid)
  have "users (snd (handle A s r)) = users s"
    unfolding DeleteMovie handle.simps by (rule users_protected) (simp add: users_delete_movie)
  then show ?thesis by simp
qed

lemma usernames_run:
  "set (map users_username (users s)) \<subseteq> set (map users_username (users (run s reqs)))"
proof (induction reqs arbitrary: s)
  case Nil
  show ?case by simp
next
  case (Cons ar reqs)
  obtain A r where ar: "ar = (A, r)" by (cases ar)
  have "set (map users_username (users s)) \<subseteq> set (map users_username (users (snd (handle A s r))))"
    by (rule usernames_handle)
  also have "\<dots> \<subseteq> set (map users_username (users (run (snd (handle A s r)) reqs)))"
    by (rule Cons.IH)
  finally show ?case by (simp add: ar)
qed

lemma register_success:
  assumes "register A s user = (Inr tok, s1)"
  shows "tok = mint A (username user) \<and> username user \<in> set (map users_username (users s1))"
proof (cases "select_user (users s) (username user)")
  case (Some row)
  with assms show ?thesis by (simp add: register_taken)
next
  case None
  show ?thesis
  proof (cases "insert_user (get_db s) (username user) (get_password_hash A (password user))")
    case (Inl e)
    with None assms show ?thesis by (simp add: register_fault)
  next
    case (Inr s2)
    with None assms have "tok = mint A (username user)" "s1 = s2"
      by (simp_all add: register_fresh)
    moreover from Inr have "username user \<in> set (map users_username (users s2))"
      by (auto simp: insert_user_def Let_def split: if_splits)
    ultimately show ?thesis by simp
  qed
qed

text \<open>
  Claim C9. If \<open>register\<close> succeeded for a username, its token is the one minted for the
  claims \<open>{"sub": username}\<close>, and after any further requests a registration with the same
  username (and any password) is answered 400 ``Username already registered'': no token is
  returned and both tables are left as they were.
\<close>

theorem register_twice_conflict:
  assumes "register A s user = (Inr tok, s1)" and "username user' = username user"
  shows "tok = \<lparr>access_token = create_access_token A [(''sub'', username user)]
                                 (ACCESS_TOKEN_EXPIRE_MINUTES A),
                token_type = ''bearer''\<rparr> \<and>
         handle A' (run s1 reqs) (Register user') = (Inl Conflict, get_db (run s1 reqs)) \<and>
         users (get_db (run s1 reqs)) = users (run s1 reqs) \<and>
         movies (get_db (run s1 reqs)) = movies (run s1 reqs)"
proof -
  from assms(1) have tok: "tok = mint A (username user)"
    and reg: "username user \<in> set (map users_username (users s1))"
    using register_success by blast+
  from reg have "username user \<in> set (map users_username (users (run s1 reqs)))"
    using usernames_run [of s1 reqs] by blast
  then obtain row where "select_user (users (run s1 reqs)) (username user') = Some row"
    using assms(2) by (cases "select_user (users (run s1 reqs)) (username user')")
      (simp_all add: select_user_None)
  then have "register A' (run s1 reqs) user' = (Inl Conflict, get_db (run s1 reqs))"
    by (rule register_taken)
  with tok show ?thesis
    by (simp add: mint_def respond_def)
qed

theorem register_twice_conflict_witness:
  "register example_auth (init_db None) \<lparr>username = ''alice'', password = ''pw1''\<rparr> =
     (Inr \<lparr>access_token = ''sig.alice'', token_type = ''bearer''\<rparr>,
      \<lparr>users = [\<lparr>users_id = 1, users_username = ''alice'',
                 users_hashed_password = ''$2b$pw1''\<rparr>],
       movies = [], users_seq = 1, movies_seq = 0, opened = 2\<rparr>) \<and>
   decode_access_token example_auth ''sig.alice'' = Some \<lparr>td_username = Some ''alice''\<rparr> \<and>
   fst (handle example_auth
         (run \<lparr>users = [\<lparr>users_id = 1, users_username = ''alice'',
                         users_hashed_password = ''$2b$pw1''\<rparr>],
               movies = [], users_seq = 1, movies_seq = 0, opened = 2\<rparr>
            [(example_auth, Login \<lparr>username = ''alice'', password = ''pw1''\<rparr>)])
         (Register \<lparr>username = ''alice'', password = ''pw2''\<rparr>)) = Inl Conflict"
proof -
  have r: "register example_auth (init_db None) \<lparr>username = ''alice'', password = ''pw1''\<rparr> =
     (Inr \<lparr>access_token = ''sig.alice'', token_type = ''bearer''\<rparr>,
      \<lparr>users = [\<lparr>users_id = 1, users_username = ''alice'',
                 users_hashed_password = ''$2b$pw1''\<rparr>],
       movies = [], users_seq = 1, movies_seq = 0, opened = 2\<rparr>)"
    by (simp add: register_def init_db_def get_db_def select_user_def insert_user_def
        next_rowid_def mint_def example_auth_def int64_def)
  have u: "username \<lparr>username = ''alice'', password = ''pw2''\<rparr> =
           username \<lparr>username = ''alice'', password = ''pw1''\<rparr>"
    by simp
  have d: "decode_access_token example_auth ''sig.alice'' = Some \<lparr>td_username = Some ''alice''\<rparr>"
    by (simp add: example_auth_def)
  show ?thesis
    using register_twice_conflict [OF r u, of example_auth
        "[(example_auth, Login \<lparr>username = ''alice'', password = ''pw1''\<rparr>)]"] r d
    by (simp del: handle.simps run.simps)
qed

end
